theory Spec2Isabelle
  imports Main
begin

section \<open>Event admission pipeline of the relay\<close>

text \<open>
  A shallow embedding of \<^verbatim>\<open>src/handlers/event-message-handler.ts\<close> (the class
  \<^verbatim>\<open>EventMessageHandler\<close> and the administrative \<^verbatim>\<open>userRequestHandler\<close>) and of the
  first \<^verbatim>\<open>UserRepository\<close> class of the repository sources. JavaScript numbers and
  big integers that the code only compares, adds and prints are integers here; strings are
  lists of characters; \<^verbatim>\<open>undefined\<close> is \<open>None\<close>. Promises are run to completion in
  program order, a rejected promise or a throw is an \<open>error\<close> value, and every effect on
  the connection, the datastore, the cache, the rate limiter and the HTTP client is a
  change of an explicit \<open>world\<close>.

  The settings are one snapshot for a whole submission. Calls to the logger are left out.
  The datastore, the cache and the rate limiter always answer: their own failures are not
  modelled, while a failed HTTP request and a read of the first entry of an empty fee
  schedule are. One reading of the clock stands for all the dates taken within one call.
\<close>

subsection \<open>Events and settings\<close>

text \<open>An entry of a \<^verbatim>\<open>kinds\<close> list: \<^verbatim>\<open>EventKinds | [EventKinds, EventKinds]\<close>.\<close>

datatype kind_matcher = KindExact int | KindRange int int

text \<open>
  The event as the handler reads it. \<open>ev_context\<close> is the slot \<^verbatim>\<open>ContextMetadataKey\<close>
  and \<open>ev_expiration\<close> the slot \<^verbatim>\<open>EventExpirationTimeMetadataKey\<close>.
\<close>

record Event =
  ev_id :: string
  ev_pubkey :: string
  ev_created_at :: int
  ev_kind :: int
  ev_tags :: "string list list"
  ev_content :: string
  ev_sig :: string
  ev_context :: "string option"
  ev_expiration :: "int option"

record ContentLimits =
  cl_kinds :: "kind_matcher list option"
  cl_maxLength :: "int option"

text \<open>\<^verbatim>\<open>content?: ContentLimits | ContentLimits[]\<close>\<close>

datatype content_setting = ContentOne ContentLimits | ContentMany "ContentLimits list"

record CreatedAtLimits =
  maxNegativeDelta :: "int option"
  maxPositiveDelta :: "int option"

record EventIdLimits =
  eid_minLeadingZeroBits :: "int option"

text \<open>
  The handler tests \<^verbatim>\<open>minLeadingZeroBits\<close> against \<^verbatim>\<open>undefined\<close> and defaults
  \<^verbatim>\<open>minBalance\<close> with \<^verbatim>\<open>??\<close>, so both are optional here.
\<close>

record PubkeyLimits =
  minBalance :: "int option"
  pk_minLeadingZeroBits :: "int option"
  pk_whitelist :: "string list option"
  pk_blacklist :: "string list option"

record KindLimits =
  k_whitelist :: "kind_matcher list option"
  k_blacklist :: "kind_matcher list option"

record EventRateLimit =
  rl_period :: int
  rl_rate :: int
  rl_kinds :: "kind_matcher list option"

record EventWhitelists =
  wl_pubkeys :: "string list option"
  wl_ipAddresses :: "string list option"

record EventLimits =
  lim_eventId :: "EventIdLimits option"
  lim_pubkey :: "PubkeyLimits option"
  lim_kind :: "KindLimits option"
  lim_createdAt :: "CreatedAtLimits option"
  lim_content :: "content_setting option"
  lim_rateLimits :: "EventRateLimit list option"
  lim_whitelists :: "EventWhitelists option"

text \<open>\<open>fee_whitelist\<close> is \<^verbatim>\<open>whitelists?.pubkeys\<close>, the only way the code reads it.\<close>

record FeeSchedule =
  enabled :: bool
  amount :: int
  fee_whitelist :: "string list option"

record Payments =
  pay_enabled :: bool
  admission :: "FeeSchedule list"
  publication :: "FeeSchedule list"
  topUp :: "FeeSchedule list"

text \<open>The flags of \<^verbatim>\<open>Webhooks\<close> with the fields of its \<^verbatim>\<open>endpoints\<close>.\<close>

record Webhooks =
  pubkeyChecks :: bool
  topUps :: bool
  eventChecks :: bool
  eventCallbacks :: bool
  baseURL :: string
  ep_pubkeyCheck :: "string option"
  ep_eventCheck :: "string option"
  ep_eventCallback :: "string option"
  ep_topUps :: "string option"

text \<open>\<open>limits_event\<close> is \<^verbatim>\<open>limits?.event\<close>.\<close>

record Settings =
  payments :: "Payments option"
  limits_event :: "EventLimits option"
  webhooks :: "Webhooks option"

subsection \<open>Printing numbers\<close>

text \<open>What a template literal prints for an integer: decimal digits, a minus sign first.\<close>

fun string_of_nat :: "nat \<Rightarrow> string" where
  "string_of_nat n =
     (if n < 10 then [''0123456789'' ! n]
      else string_of_nat (n div 10) @ [''0123456789'' ! (n mod 10)])"

declare string_of_nat.simps [simp del]

definition string_of_int :: "int \<Rightarrow> string" where
  "string_of_int i =
     (if i < 0 then CHR ''-'' # string_of_nat (nat (- i)) else string_of_nat (nat i))"

text \<open>JavaScript truthiness of an optional string: defined and not empty.\<close>

definition truthy :: "string option \<Rightarrow> bool" where
  "truthy x = (case x of None \<Rightarrow> False | Some v \<Rightarrow> v \<noteq> [])"

text \<open>What a template literal prints for an optional string.\<close>

definition template :: "string option \<Rightarrow> string" where
  "template x = (case x of None \<Rightarrow> ''undefined'' | Some v \<Rightarrow> v)"

text \<open>\<^verbatim>\<open>String.prototype.startsWith\<close>\<close>

definition startsWith :: "string \<Rightarrow> string \<Rightarrow> bool" where
  "startsWith str pre = (take (length pre) str = pre)"

text \<open>\<^verbatim>\<open>Array.prototype.some\<close>\<close>

definition some :: "('a \<Rightarrow> bool) \<Rightarrow> 'a list \<Rightarrow> bool" where
  "some p xs = list_ex p xs"

subsection \<open>The collaborators: connection, datastore, cache, rate limiter, HTTP\<close>

text \<open>A row of the \<^verbatim>\<open>users\<close> table (\<^verbatim>\<open>DBUser\<close>) and its columns.\<close>

record DBUser =
  db_pubkey :: string
  is_admitted :: bool
  db_balance :: int
  tos_accepted_at :: "int option"
  updated_at :: int
  created_at :: int

datatype column =
  ColPubkey | ColIsAdmitted | ColBalance | ColTosAcceptedAt | ColUpdatedAt | ColCreatedAt

text \<open>A user; \<open>tosAcceptedAt\<close> is \<open>None\<close> when the record has no such property.\<close>

record User =
  u_pubkey :: string
  isAdmitted :: bool
  balance :: int
  createdAt :: int
  updatedAt :: int
  tosAcceptedAt :: "int option"

text \<open>The frame \<^verbatim>\<open>["OK", eventId, accepted, reason]\<close> written to the connection.\<close>

datatype message = CommandResult string bool string

datatype http_body = EventBody Event | PubkeyAmountBody string int

text \<open>
  \<^verbatim>\<open>response.data\<close> of a webhook. \<open>r_balance\<close> is \<open>None\<close> when the field is one that
  \<^verbatim>\<open>BigInt()\<close> throws on.
\<close>

record http_data =
  r_success :: bool
  r_reason :: string
  r_isAdmitted :: bool
  r_balance :: "int option"
  r_createdAt :: int
  r_updatedAt :: int

datatype error = TransportFailure | TypeError

datatype db_query =
  SelectUser string
| SelectBalance string
| UpsertUser DBUser
| IncrementBalance string int
| DecrementBalance string int

text \<open>A call \<^verbatim>\<open>rateLimiter.hit(key, step, {period, rate})\<close>.\<close>

type_synonym rl_hit = "string \<times> int \<times> int \<times> int"

text \<open>
  Everything the handler and the repository can change: the \<^verbatim>\<open>users\<close> table and the
  statements sent to the datastore, the cache (value and time to live in seconds), the
  requests posted, the hits of the rate limiter and the frames emitted on the connection.
\<close>

record world =
  users :: "string \<rightharpoonup> DBUser"
  db_log :: "db_query list"
  cache :: "string \<rightharpoonup> string \<times> int option"
  http_log :: "(string \<times> http_body) list"
  rl_log :: "rl_hit list"
  emitted :: "message list"

datatype outcome = Returned | Thrown

text \<open>\<^verbatim>\<open>strategy.execute(event)\<close>: it may do anything to the world, and return or throw.\<close>

type_synonym strategy = "Event \<Rightarrow> world \<Rightarrow> outcome \<times> world"

text \<open>
  What the sources import and this development takes as given: the helpers of
  \<^verbatim>\<open>utils/event\<close>, the clock, the client address, the rate limiter (its answer to a hit
  after the hits before it), the remote servers (their answer to a request after the
  requests before it), the strategy factory, the process environment, and the settings the
  repository read when it was constructed.
\<close>

record environment =
  isEventIdValid :: "Event \<Rightarrow> bool"
  isEventSignatureValid :: "Event \<Rightarrow> bool"
  isExpiredEvent :: "Event \<Rightarrow> bool"
  getEventExpiration :: "Event \<Rightarrow> int option"
  getEventProofOfWork :: "string \<Rightarrow> int"
  getPubkeyProofOfWork :: "string \<Rightarrow> int"
  now_seconds :: int
  now_date :: int
  getClientAddress :: string
  rateLimiterHit :: "rl_hit list \<Rightarrow> rl_hit \<Rightarrow> bool"
  httpPost :: "(string \<times> http_body) list \<Rightarrow> string \<Rightarrow> http_body \<Rightarrow> error + http_data"
  strategyFactory :: "Event \<Rightarrow> strategy option"
  VIDA_API_KEY :: "string option"
  RELAY_API_KEY :: "string option"
  repoSettings :: Settings

record IncomingEventMessage =
  msg_event :: Event
  msg_context :: "string option"

subsection \<open>The command-result emitter\<close>

text \<open>
  Modelled from the spec: \<^verbatim>\<open>createCommandResult\<close> (\<^verbatim>\<open>utils/messages\<close>) is not among the
  sources; it builds the frame \<^verbatim>\<open>["OK", eventId, accepted, reason]\<close>.
\<close>

definition createCommandResult :: "string \<Rightarrow> bool \<Rightarrow> string \<Rightarrow> message" where
  "createCommandResult eventId successful text = CommandResult eventId successful text"

text \<open>\<^verbatim>\<open>this.webSocket.emit(WebSocketAdapterEvent.Message, m)\<close>\<close>

definition emit :: "message \<Rightarrow> world \<Rightarrow> world" where
  "emit m w = w\<lparr>emitted := emitted w @ [m]\<rparr>"

subsection \<open>Validity and expiration metadata\<close>

definition isEventValid :: "environment \<Rightarrow> Event \<Rightarrow> string option" where
  "isEventValid env event =
     (if \<not> isEventIdValid env event then Some ''invalid: event id does not match''
      else if \<not> isEventSignatureValid env event
        then Some ''invalid: event signature verification failed''
      else None)"

text \<open>\<^verbatim>\<open>if (eventExpiration)\<close> holds for a number other than zero.\<close>

definition addExpirationMetadata :: "environment \<Rightarrow> Event \<Rightarrow> Event" where
  "addExpirationMetadata env event =
     (case getEventExpiration env event of
        Some eventExpiration \<Rightarrow>
          if eventExpiration \<noteq> 0 then event\<lparr>ev_expiration := Some eventExpiration\<rparr>
          else event
      | None \<Rightarrow> event)"

subsection \<open>The policy evaluator\<close>

text \<open>
  Modelled from the spec: \<^verbatim>\<open>isEventKindOrRangeMatch\<close> (\<^verbatim>\<open>utils/event\<close>) is not among the
  sources. A kind matcher accepts either an exact integer (equality) or a \<^verbatim>\<open>[lo, hi]\<close>
  pair (inclusive range).
\<close>

definition isEventKindOrRangeMatch :: "Event \<Rightarrow> kind_matcher \<Rightarrow> bool" where
  "isEventKindOrRangeMatch event item =
     (case item of
        KindExact k \<Rightarrow> k = ev_kind event
      | KindRange lo hi \<Rightarrow> lo \<le> ev_kind event \<and> ev_kind event \<le> hi)"

text \<open>\<^verbatim>\<open>this.settings().limits?.event ?? {}\<close>\<close>

definition noEventLimits :: EventLimits where
  "noEventLimits =
     \<lparr>lim_eventId = None, lim_pubkey = None, lim_kind = None, lim_createdAt = None,
      lim_content = None, lim_rateLimits = None, lim_whitelists = None\<rparr>"

definition eventLimits :: "Settings \<Rightarrow> EventLimits" where
  "eventLimits s = (case limits_event s of Some l \<Rightarrow> l | None \<Rightarrow> noEventLimits)"

text \<open>The loop over \<^verbatim>\<open>limits.content\<close> when it is an array; it returns at the first hit.\<close>

fun contentLoop :: "Event \<Rightarrow> ContentLimits list \<Rightarrow> string option" where
  "contentLoop event [] = None"
| "contentLoop event (limit # rest) =
     (case cl_maxLength limit of
        Some maxLength \<Rightarrow>
          if 0 < maxLength \<and> maxLength < int (length (ev_content event))
             \<and> (case cl_kinds limit of
                    None \<Rightarrow> True
                  | Some ks \<Rightarrow> some (isEventKindOrRangeMatch event) ks)
          then Some (''rejected: content is longer than '' @ string_of_int maxLength @ '' bytes'')
          else contentLoop event rest
      | None \<Rightarrow> contentLoop event rest)"

text \<open>
  \<^verbatim>\<open>canAcceptEvent\<close> is a chain of nine \<^verbatim>\<open>if (...) return reason\<close> statements; each is
  a definition here, named after what it tests, and gives the reason it returns, if any.
\<close>

text \<open>Lines 134-158.\<close>

definition checkContent :: "EventLimits \<Rightarrow> Event \<Rightarrow> string option" where
  "checkContent limits event =
     (case lim_content limits of
        Some (ContentMany ls) \<Rightarrow> contentLoop event ls
      | Some (ContentOne l) \<Rightarrow>
          (case cl_maxLength l of
             Some maxLength \<Rightarrow>
               if 0 < maxLength \<and> maxLength < int (length (ev_content event))
                  \<and> (case cl_kinds l of
                         None \<Rightarrow> True
                       | Some ks \<Rightarrow> some (isEventKindOrRangeMatch event) ks)
               then Some (''rejected: content is longer than '' @ string_of_int maxLength
                          @ '' bytes'')
               else None
           | None \<Rightarrow> None)
      | None \<Rightarrow> None)"

text \<open>Lines 160-165.\<close>

definition checkFutureSkew :: "int \<Rightarrow> EventLimits \<Rightarrow> Event \<Rightarrow> string option" where
  "checkFutureSkew now limits event =
     (case Option.bind (lim_createdAt limits) maxPositiveDelta of
        Some d \<Rightarrow>
          if 0 < d \<and> now + d < ev_created_at event
          then Some (''rejected: created_at is more than '' @ string_of_int d
                     @ '' seconds in the future'')
          else None
      | None \<Rightarrow> None)"

text \<open>Lines 167-172.\<close>

definition checkPastSkew :: "int \<Rightarrow> EventLimits \<Rightarrow> Event \<Rightarrow> string option" where
  "checkPastSkew now limits event =
     (case Option.bind (lim_createdAt limits) maxNegativeDelta of
        Some d \<Rightarrow>
          if 0 < d \<and> ev_created_at event < now - d
          then Some (''rejected: created_at is more than '' @ string_of_int d
                     @ '' seconds in the past'')
          else None
      | None \<Rightarrow> None)"

text \<open>Lines 174-182.\<close>

definition checkEventIdPow :: "environment \<Rightarrow> EventLimits \<Rightarrow> Event \<Rightarrow> string option" where
  "checkEventIdPow env limits event =
     (case Option.bind (lim_eventId limits) eid_minLeadingZeroBits of
        Some bits \<Rightarrow>
          if 0 < bits then
            (let pow = getEventProofOfWork env (ev_id event)
             in if pow < bits
                then Some (''pow: difficulty '' @ string_of_int pow @ ''<'' @ string_of_int bits)
                else None)
          else None
      | None \<Rightarrow> None)"

text \<open>Lines 184-192.\<close>

definition checkPubkeyPow :: "environment \<Rightarrow> EventLimits \<Rightarrow> Event \<Rightarrow> string option" where
  "checkPubkeyPow env limits event =
     (case Option.bind (lim_pubkey limits) pk_minLeadingZeroBits of
        Some bits \<Rightarrow>
          if 0 < bits then
            (let pow = getPubkeyProofOfWork env (ev_pubkey event)
             in if pow < bits
                then Some (''pow: pubkey difficulty '' @ string_of_int pow @ ''<''
                           @ string_of_int bits)
                else None)
          else None
      | None \<Rightarrow> None)"

text \<open>Lines 194-200.\<close>

definition checkPubkeyWhitelist :: "EventLimits \<Rightarrow> Event \<Rightarrow> string option" where
  "checkPubkeyWhitelist limits event =
     (case Option.bind (lim_pubkey limits) pk_whitelist of
        Some wl \<Rightarrow>
          if 0 < length wl \<and> \<not> some (\<lambda>prefix. startsWith (ev_pubkey event) prefix) wl
          then Some ''blocked: pubkey not allowed''
          else None
      | None \<Rightarrow> None)"

text \<open>Lines 202-208.\<close>

definition checkPubkeyBlacklist :: "EventLimits \<Rightarrow> Event \<Rightarrow> string option" where
  "checkPubkeyBlacklist limits event =
     (case Option.bind (lim_pubkey limits) pk_blacklist of
        Some bl \<Rightarrow>
          if 0 < length bl \<and> some (\<lambda>prefix. startsWith (ev_pubkey event) prefix) bl
          then Some ''blocked: pubkey not allowed''
          else None
      | None \<Rightarrow> None)"

text \<open>Lines 210-215.\<close>

definition checkKindWhitelist :: "EventLimits \<Rightarrow> Event \<Rightarrow> string option" where
  "checkKindWhitelist limits event =
     (case Option.bind (lim_kind limits) k_whitelist of
        Some wl \<Rightarrow>
          if 0 < length wl \<and> \<not> some (isEventKindOrRangeMatch event) wl
          then Some (''blocked: event kind '' @ string_of_int (ev_kind event)
                     @ '' not allowed'')
          else None
      | None \<Rightarrow> None)"

text \<open>Lines 217-222.\<close>

definition checkKindBlacklist :: "EventLimits \<Rightarrow> Event \<Rightarrow> string option" where
  "checkKindBlacklist limits event =
     (case Option.bind (lim_kind limits) k_blacklist of
        Some bl \<Rightarrow>
          if 0 < length bl \<and> some (isEventKindOrRangeMatch event) bl
          then Some (''blocked: event kind '' @ string_of_int (ev_kind event)
                     @ '' not allowed'')
          else None
      | None \<Rightarrow> None)"

text \<open>
  The chain itself: a statement is reached only when none before it returned, and falling off
  the end returns \<^verbatim>\<open>undefined\<close>. \<^verbatim>\<open>Date.now()\<close> is read from the environment.
\<close>

definition canAcceptEvent :: "environment \<Rightarrow> Settings \<Rightarrow> Event \<Rightarrow> string option" where
  "canAcceptEvent env s event =
    (let now = now_seconds env;
         limits = eventLimits s
     in
     (case checkContent limits event of
        Some r \<Rightarrow> Some r
      | None \<Rightarrow>
     (case checkFutureSkew now limits event of
        Some r \<Rightarrow> Some r
      | None \<Rightarrow>
     (case checkPastSkew now limits event of
        Some r \<Rightarrow> Some r
      | None \<Rightarrow>
     (case checkEventIdPow env limits event of
        Some r \<Rightarrow> Some r
      | None \<Rightarrow>
     (case checkPubkeyPow env limits event of
        Some r \<Rightarrow> Some r
      | None \<Rightarrow>
     (case checkPubkeyWhitelist limits event of
        Some r \<Rightarrow> Some r
      | None \<Rightarrow>
     (case checkPubkeyBlacklist limits event of
        Some r \<Rightarrow> Some r
      | None \<Rightarrow>
     (case checkKindWhitelist limits event of
        Some r \<Rightarrow> Some r
      | None \<Rightarrow>
     checkKindBlacklist limits event)))))))))"

text \<open>
  The same policy as the table of the specification: nine rules in order, each giving its
  reason when it is violated, and the first reason given is the answer.
\<close>

definition contentViolated :: "Event \<Rightarrow> ContentLimits \<Rightarrow> bool" where
  "contentViolated event l =
     ((case cl_maxLength l of
         None \<Rightarrow> False
       | Some n \<Rightarrow> 0 < n \<and> n < int (length (ev_content event)))
      \<and> (case cl_kinds l of
             None \<Rightarrow> True
           | Some ks \<Rightarrow> list_ex (isEventKindOrRangeMatch event) ks))"

definition threshold :: "int option \<Rightarrow> int" where
  "threshold x = (case x of Some d \<Rightarrow> d | None \<Rightarrow> 0)"

definition listed :: "'a list option \<Rightarrow> 'a list" where
  "listed x = (case x of Some xs \<Rightarrow> xs | None \<Rightarrow> [])"

definition contentReason :: "ContentLimits \<Rightarrow> string" where
  "contentReason l =
     ''rejected: content is longer than '' @ string_of_int (threshold (cl_maxLength l)) @ '' bytes''"

definition rule :: "bool \<Rightarrow> string \<Rightarrow> string option" where
  "rule violated text = (if violated then Some text else None)"

definition contentRule :: "Event \<Rightarrow> content_setting option \<Rightarrow> string option" where
  "contentRule event c =
     (case c of
        None \<Rightarrow> None
      | Some (ContentOne l) \<Rightarrow> rule (contentViolated event l) (contentReason l)
      | Some (ContentMany ls) \<Rightarrow> map_option contentReason (find (contentViolated event) ls))"

definition policyRules :: "environment \<Rightarrow> Settings \<Rightarrow> Event \<Rightarrow> string option list" where
  "policyRules env s event =
    (let limits = eventLimits s;
         now = now_seconds env;
         future = threshold (Option.bind (lim_createdAt limits) maxPositiveDelta);
         past = threshold (Option.bind (lim_createdAt limits) maxNegativeDelta);
         idBits = threshold (Option.bind (lim_eventId limits) eid_minLeadingZeroBits);
         pkBits = threshold (Option.bind (lim_pubkey limits) pk_minLeadingZeroBits);
         pkAllow = listed (Option.bind (lim_pubkey limits) pk_whitelist);
         pkDeny = listed (Option.bind (lim_pubkey limits) pk_blacklist);
         kindAllow = listed (Option.bind (lim_kind limits) k_whitelist);
         kindDeny = listed (Option.bind (lim_kind limits) k_blacklist);
         idPow = getEventProofOfWork env (ev_id event);
         pkPow = getPubkeyProofOfWork env (ev_pubkey event);
         kindReason = ''blocked: event kind '' @ string_of_int (ev_kind event) @ '' not allowed''
     in
     [ contentRule event (lim_content limits),
       rule (0 < future \<and> ev_created_at event > now + future)
         (''rejected: created_at is more than '' @ string_of_int future @ '' seconds in the future''),
       rule (0 < past \<and> ev_created_at event < now - past)
         (''rejected: created_at is more than '' @ string_of_int past @ '' seconds in the past''),
       rule (0 < idBits \<and> idPow < idBits)
         (''pow: difficulty '' @ string_of_int idPow @ ''<'' @ string_of_int idBits),
       rule (0 < pkBits \<and> pkPow < pkBits)
         (''pow: pubkey difficulty '' @ string_of_int pkPow @ ''<'' @ string_of_int pkBits),
       rule (pkAllow \<noteq> [] \<and> \<not> list_ex (startsWith (ev_pubkey event)) pkAllow)
         ''blocked: pubkey not allowed'',
       rule (pkDeny \<noteq> [] \<and> list_ex (startsWith (ev_pubkey event)) pkDeny)
         ''blocked: pubkey not allowed'',
       rule (kindAllow \<noteq> [] \<and> \<not> list_ex (isEventKindOrRangeMatch event) kindAllow) kindReason,
       rule (kindDeny \<noteq> [] \<and> list_ex (isEventKindOrRangeMatch event) kindDeny) kindReason ])"

fun first_some :: "'a option list \<Rightarrow> 'a option" where
  "first_some [] = None"
| "first_some (None # xs) = first_some xs"
| "first_some (Some x # xs) = Some x"

subsection \<open>Rate limiting\<close>

text \<open>
  The local \<^verbatim>\<open>toString\<close>: an array prints as its elements joined by commas between
  brackets, a number as its digits.
\<close>

fun join_commas :: "string list \<Rightarrow> string" where
  "join_commas [] = []"
| "join_commas [x] = x"
| "join_commas (x # y # ys) = x @ '','' @ join_commas (y # ys)"

fun toString_kind :: "kind_matcher \<Rightarrow> string" where
  "toString_kind (KindExact k) = string_of_int k"
| "toString_kind (KindRange lo hi) =
     ''['' @ join_commas [string_of_int lo, string_of_int hi] @ '']''"

definition toString_kinds :: "kind_matcher list \<Rightarrow> string" where
  "toString_kinds ks = ''['' @ join_commas (map toString_kind ks) @ '']''"

text \<open>The key of the local \<^verbatim>\<open>hit\<close>.\<close>

definition hitKey :: "Event \<Rightarrow> EventRateLimit \<Rightarrow> string" where
  "hitKey event r =
     (case rl_kinds r of
        Some ks \<Rightarrow>
          ev_pubkey event @ '':events:'' @ string_of_int (rl_period r) @ '':'' @ toString_kinds ks
      | None \<Rightarrow> ev_pubkey event @ '':events:'' @ string_of_int (rl_period r))"

text \<open>
  The local \<^verbatim>\<open>hit\<close>: \<^verbatim>\<open>rateLimiter.hit(key, 1, { period, rate })\<close>. The limiter records
  the hit and answers from the hits made so far.
\<close>

definition hit :: "environment \<Rightarrow> Event \<Rightarrow> EventRateLimit \<Rightarrow> world \<Rightarrow> bool \<times> world" where
  "hit env event r w =
     (let h = (hitKey event r, 1, rl_period r, rl_rate r)
      in (rateLimiterHit env (rl_log w) h, w\<lparr>rl_log := rl_log w @ [h]\<rparr>))"

text \<open>The loop over \<^verbatim>\<open>rateLimits\<close>, with the variable \<^verbatim>\<open>limited\<close>.\<close>

fun rateLimitLoop ::
  "environment \<Rightarrow> Event \<Rightarrow> EventRateLimit list \<Rightarrow> bool \<Rightarrow> world \<Rightarrow> bool \<times> world" where
  "rateLimitLoop env event [] limited w = (limited, w)"
| "rateLimitLoop env event (r # rest) limited w =
     (if (case rl_kinds r of
            Some ks \<Rightarrow> \<not> some (isEventKindOrRangeMatch event) ks
          | None \<Rightarrow> False)
      then rateLimitLoop env event rest limited w
      else (case hit env event r w of
              (isRateLimited, w') \<Rightarrow>
                rateLimitLoop env event rest (if isRateLimited then True else limited) w'))"

definition isRateLimited :: "environment \<Rightarrow> Settings \<Rightarrow> Event \<Rightarrow> world \<Rightarrow> bool \<times> world" where
  "isRateLimited env s event w =
     (let limits = eventLimits s
      in case lim_rateLimits limits of
           None \<Rightarrow> (False, w)
         | Some rls \<Rightarrow>
             if rls = [] then (False, w)
             else if (case Option.bind (lim_whitelists limits) wl_pubkeys of
                        Some pks \<Rightarrow> ev_pubkey event \<in> set pks
                      | None \<Rightarrow> False)
               then (False, w)
             else if (case Option.bind (lim_whitelists limits) wl_ipAddresses of
                        Some ips \<Rightarrow> getClientAddress env \<in> set ips
                      | None \<Rightarrow> False)
               then (False, w)
             else rateLimitLoop env event rls False w)"

subsection \<open>The user repository\<close>

text \<open>
  Modelled from the spec: \<^verbatim>\<open>fromDBUser\<close> and \<^verbatim>\<open>toBuffer\<close> (\<^verbatim>\<open>utils/transform\<close>) are not
  among the sources. A row and a user carry the same values under the two naming schemes;
  the table is keyed by the public key, so \<^verbatim>\<open>toBuffer\<close> keeps the key as it is.
\<close>

definition fromDBUser :: "DBUser \<Rightarrow> User" where
  "fromDBUser r =
     \<lparr>u_pubkey = db_pubkey r, isAdmitted = is_admitted r, balance = db_balance r,
      createdAt = created_at r, updatedAt = updated_at r, tosAcceptedAt = tos_accepted_at r\<rparr>"

definition toBuffer :: "string \<Rightarrow> string" where
  "toBuffer pk = pk"

text \<open>The cache client: \<^verbatim>\<open>exists\<close>, \<^verbatim>\<open>set\<close> and \<^verbatim>\<open>expire\<close>.\<close>

definition cacheExists :: "string \<Rightarrow> world \<Rightarrow> bool" where
  "cacheExists k w = (cache w k \<noteq> None)"

definition cacheSet :: "string \<Rightarrow> string \<Rightarrow> world \<Rightarrow> world" where
  "cacheSet k v w = w\<lparr>cache := (cache w)(k \<mapsto> (v, None))\<rparr>"

definition cacheExpire :: "string \<Rightarrow> int \<Rightarrow> world \<Rightarrow> world" where
  "cacheExpire k seconds w =
     (case cache w k of
        Some (v, _) \<Rightarrow> w\<lparr>cache := (cache w)(k \<mapsto> (v, Some seconds))\<rparr>
      | None \<Rightarrow> w)"

text \<open>
  The datastore: \<^verbatim>\<open>insert(row).onConflict('pubkey').merge(columns)\<close> inserts the row, or,
  when a row with its key is there, writes the listed columns of the row over it. One row is
  affected either way. In the row handed over, \<open>tos_accepted_at\<close> is \<open>None\<close> when the
  user has no \<^verbatim>\<open>tosAcceptedAt\<close> and the value is \<^verbatim>\<open>undefined\<close>: the query builder drops
  an undefined value from the columns it merges, so the stored value stays, and an insert
  leaves the column empty.
\<close>

fun setColumn :: "DBUser \<Rightarrow> column \<Rightarrow> DBUser \<Rightarrow> DBUser" where
  "setColumn row ColPubkey old = old\<lparr>db_pubkey := db_pubkey row\<rparr>"
| "setColumn row ColIsAdmitted old = old\<lparr>is_admitted := is_admitted row\<rparr>"
| "setColumn row ColBalance old = old\<lparr>db_balance := db_balance row\<rparr>"
| "setColumn row ColTosAcceptedAt old =
     (case tos_accepted_at row of
        None \<Rightarrow> old
      | Some t \<Rightarrow> old\<lparr>tos_accepted_at := Some t\<rparr>)"
| "setColumn row ColUpdatedAt old = old\<lparr>updated_at := updated_at row\<rparr>"
| "setColumn row ColCreatedAt old = old\<lparr>created_at := created_at row\<rparr>"

definition insertOnConflictMerge :: "DBUser \<Rightarrow> column list \<Rightarrow> world \<Rightarrow> int \<times> world" where
  "insertOnConflictMerge row columns w =
     (1, w\<lparr>users :=
             (case users w (db_pubkey row) of
                None \<Rightarrow> (users w)(db_pubkey row \<mapsto> row)
              | Some old \<Rightarrow> (users w)(db_pubkey row \<mapsto> foldr (setColumn row) columns old)),
           db_log := db_log w @ [UpsertUser row]\<rparr>)"

text \<open>The columns \<^verbatim>\<open>applySpec\<close> fills, and \<^verbatim>\<open>omit\<close> of ramda.\<close>

definition rowColumns :: "column list" where
  "rowColumns =
     [ColPubkey, ColIsAdmitted, ColBalance, ColTosAcceptedAt, ColUpdatedAt, ColCreatedAt]"

definition omit :: "column list \<Rightarrow> column list \<Rightarrow> column list" where
  "omit names columns = filter (\<lambda>c. c \<notin> set names) columns"

definition upsert :: "environment \<Rightarrow> User \<Rightarrow> world \<Rightarrow> int \<times> world" where
  "upsert env user w =
     (let date = now_date env;
          row = \<lparr>db_pubkey = toBuffer (u_pubkey user), is_admitted = isAdmitted user,
                 db_balance = balance user, tos_accepted_at = tosAcceptedAt user,
                 updated_at = date, created_at = date\<rparr>
      in insertOnConflictMerge row (omit [ColPubkey, ColBalance, ColCreatedAt] rowColumns) w)"

definition getBalanceByPubkey :: "string \<Rightarrow> world \<Rightarrow> int \<times> world" where
  "getBalanceByPubkey pk w =
     (let w' = w\<lparr>db_log := db_log w @ [SelectBalance (toBuffer pk)]\<rparr>
      in case users w (toBuffer pk) of
           None \<Rightarrow> (0, w')
         | Some user \<Rightarrow> (db_balance user, w'))"

text \<open>\<^verbatim>\<open>UPDATE users SET balance = balance + amount WHERE pubkey = ...\<close>\<close>

definition incrementUserBalance :: "string \<Rightarrow> int \<Rightarrow> world \<Rightarrow> world" where
  "incrementUserBalance pk n w =
     w\<lparr>users :=
         (case users w pk of
            None \<Rightarrow> users w
          | Some u \<Rightarrow> (users w)(pk \<mapsto> u\<lparr>db_balance := db_balance u + n\<rparr>)),
       db_log := db_log w @ [IncrementBalance pk n]\<rparr>"

text \<open>\<^verbatim>\<open>UPDATE users SET balance = balance - amount WHERE pubkey = ...\<close>\<close>

definition decrementUserBalance :: "string \<Rightarrow> int \<Rightarrow> world \<Rightarrow> world" where
  "decrementUserBalance pk n w =
     w\<lparr>users :=
         (case users w pk of
            None \<Rightarrow> users w
          | Some u \<Rightarrow> (users w)(pk \<mapsto> u\<lparr>db_balance := db_balance u - n\<rparr>)),
       db_log := db_log w @ [DecrementBalance pk n]\<rparr>"

text \<open>
  Modelled from the spec: \<^verbatim>\<open>updateUserBalance\<close>, which \<^verbatim>\<open>handleMessage\<close> calls with
  \<^verbatim>\<open>'decrement'\<close>, is not among the sources. Stage 9 of the pipeline is to decrement the
  submitter's balance by the amount of the fee, which the repository does by the statement
  of \<^verbatim>\<open>decrementUserBalance\<close>; any other direction is taken as the increment.
\<close>

definition updateUserBalance :: "string \<Rightarrow> int \<Rightarrow> string \<Rightarrow> world \<Rightarrow> world" where
  "updateUserBalance pk n direction w =
     (if direction = ''decrement'' then decrementUserBalance pk n w
      else incrementUserBalance pk n w)"

text \<open>
  \<^verbatim>\<open>payments?.feeSchedules?.topUp[0].amount || 0\<close>: reading \<^verbatim>\<open>amount\<close> of the first
  entry of an empty array throws.
\<close>

definition topUpAmount :: "Settings \<Rightarrow> error + int" where
  "topUpAmount s =
     (case payments s of
        None \<Rightarrow> Inr 0
      | Some p \<Rightarrow> (case topUp p of [] \<Rightarrow> Inl TypeError | t # _ \<Rightarrow> Inr (amount t)))"

definition post :: "environment \<Rightarrow> string \<Rightarrow> http_body \<Rightarrow> world \<Rightarrow> (error + http_data) \<times> world" where
  "post env url body w =
     (httpPost env (http_log w) url body, w\<lparr>http_log := http_log w @ [(url, body)]\<rparr>)"

definition fetchUserByWebhook ::
  "environment \<Rightarrow> string \<Rightarrow> world \<Rightarrow> (error + User option) \<times> world" where
  "fetchUserByWebhook env pk w =
     (case webhooks (repoSettings env) of
        None \<Rightarrow> (Inr None, w)
      | Some wh \<Rightarrow>
          if \<not> pubkeyChecks wh \<or> baseURL wh = [] \<or> \<not> truthy (ep_pubkeyCheck wh)
          then (Inr None, w)
          else if \<not> truthy (VIDA_API_KEY env) then (Inr None, w)
          else
            (let url = baseURL wh @ template (ep_pubkeyCheck wh) @ ''?token=''
                       @ template (VIDA_API_KEY env)
             in case topUpAmount (repoSettings env) of
                  Inl err \<Rightarrow> (Inl err, w)
                | Inr n \<Rightarrow>
                    (case post env url (PubkeyAmountBody pk n) w of
                       (Inl err, w') \<Rightarrow> (Inl err, w')
                     | (Inr d, w') \<Rightarrow>
                         if r_isAdmitted d then
                           (case r_balance d of
                              None \<Rightarrow> (Inl TypeError, w')
                            | Some b \<Rightarrow>
                                (Inr (Some \<lparr>u_pubkey = pk, isAdmitted = r_isAdmitted d,
                                            balance = b, createdAt = r_createdAt d,
                                            updatedAt = r_updatedAt d, tosAcceptedAt = None\<rparr>),
                                 w'))
                         else (Inr None, w'))))"

definition findByPubkey ::
  "environment \<Rightarrow> string \<Rightarrow> world \<Rightarrow> (error + User option) \<times> world" where
  "findByPubkey env pk w =
     (if cacheExists (pk @ '':is-blocked'') w then (Inr None, w)
      else
        (let w1 = w\<lparr>db_log := db_log w @ [SelectUser (toBuffer pk)]\<rparr>
         in case users w (toBuffer pk) of
              Some dbuser \<Rightarrow> (Inr (Some (fromDBUser dbuser)), w1)
            | None \<Rightarrow>
                (case fetchUserByWebhook env pk w1 of
                   (Inl err, w2) \<Rightarrow> (Inl err, w2)
                 | (Inr (Some webhookUser), w2) \<Rightarrow>
                     (let date = now_date env
                      in case upsert env
                             \<lparr>u_pubkey = u_pubkey webhookUser,
                              isAdmitted = isAdmitted webhookUser,
                              balance = balance webhookUser, createdAt = date,
                              updatedAt = date, tosAcceptedAt = Some date\<rparr> w2 of
                           (_, w3) \<Rightarrow> (Inr (Some webhookUser), w3))
                 | (Inr None, w2) \<Rightarrow>
                     (Inr None,
                      cacheExpire (pk @ '':is-blocked'') 60
                        (cacheSet (pk @ '':is-blocked'') ''true'' w2)))))"

definition topUpPubkey :: "environment \<Rightarrow> string \<Rightarrow> world \<Rightarrow> (error + bool) \<times> world" where
  "topUpPubkey env pk w =
     (case webhooks (repoSettings env) of
        None \<Rightarrow> (Inr False, w)
      | Some wh \<Rightarrow>
          if \<not> topUps wh \<or> baseURL wh = [] \<or> \<not> truthy (ep_topUps wh) then (Inr False, w)
          else if \<not> truthy (VIDA_API_KEY env) then (Inr False, w)
          else
            (case topUpAmount (repoSettings env) of
               Inl err \<Rightarrow> (Inl err, w)
             | Inr n \<Rightarrow>
                 (let url = baseURL wh @ template (ep_topUps wh) @ ''?token=''
                            @ template (VIDA_API_KEY env)
                  in case post env url (PubkeyAmountBody pk n) w of
                       (Inl err, w') \<Rightarrow> (Inl err, w')
                     | (Inr d, w') \<Rightarrow>
                         if r_success d then (Inr True, incrementUserBalance pk n w')
                         else (Inr False, w'))))"

subsection \<open>User admission\<close>

definition isApplicableFee :: "Event \<Rightarrow> FeeSchedule \<Rightarrow> bool" where
  "isApplicableFee event feeSchedule =
     (enabled feeSchedule
      \<and> \<not> (case fee_whitelist feeSchedule of
               None \<Rightarrow> False
             | Some prefixes \<Rightarrow> some (\<lambda>prefix. startsWith (ev_pubkey event) prefix) prefixes))"

text \<open>
  \<^verbatim>\<open>limits?.event?.pubkey?.minBalance ?? 0n\<close>
\<close>

definition minBalanceOf :: "Settings \<Rightarrow> int" where
  "minBalanceOf s =
     (case Option.bind (Option.bind (limits_event s) lim_pubkey) minBalance of
        Some b \<Rightarrow> b
      | None \<Rightarrow> 0)"

text \<open>
  The result is the reason, \<open>None\<close> for \<^verbatim>\<open>undefined\<close>. Reading \<^verbatim>\<open>publication[0]\<close> or
  \<^verbatim>\<open>topUp[0]\<close> of an empty array throws.
\<close>

definition isUserAdmitted ::
  "environment \<Rightarrow> Settings \<Rightarrow> Event \<Rightarrow> world \<Rightarrow> (error + string option) \<times> world" where
  "isUserAdmitted env currentSettings event w =
     (case payments currentSettings of
        None \<Rightarrow> (Inr None, w)
      | Some p \<Rightarrow>
          if \<not> pay_enabled p then (Inr None, w)
          else
            (let feeSchedules = filter (isApplicableFee event) (admission p)
             in if feeSchedules = [] then (Inr None, w)
                else
                  (case findByPubkey env (ev_pubkey event) w of
                     (Inl err, w1) \<Rightarrow> (Inl err, w1)
                   | (Inr None, w1) \<Rightarrow> (Inr (Some ''blocked: pubkey not admitted''), w1)
                   | (Inr (Some user), w1) \<Rightarrow>
                       if \<not> isAdmitted user
                       then (Inr (Some ''blocked: pubkey not admitted''), w1)
                       else
                         (case publication p of
                            [] \<Rightarrow> (Inl TypeError, w1)
                          | pub0 # _ \<Rightarrow>
                              if enabled pub0 \<and> balance user < amount pub0 then
                                (case topUp p of
                                   [] \<Rightarrow> (Inl TypeError, w1)
                                 | top0 # _ \<Rightarrow>
                                     if enabled top0 then
                                       (case topUpPubkey env (ev_pubkey event) w1 of
                                          (Inl err, w2) \<Rightarrow> (Inl err, w2)
                                        | (Inr toppedUp, w2) \<Rightarrow>
                                            if toppedUp then (Inr None, w2)
                                            else (Inr (Some ''blocked: insufficient balance''),
                                                  w2))
                                     else (Inr (Some ''blocked: insufficient balance''), w1))
                              else
                                (let minBalance = minBalanceOf currentSettings
                                 in if 0 < minBalance \<and> balance user < minBalance
                                    then (Inr (Some ''blocked: insufficient balance''), w1)
                                    else (Inr None, w1))))))"

subsection \<open>The pipeline\<close>

text \<open>How a block of \<^verbatim>\<open>handleMessage\<close> ends: it falls through, returns, or throws.\<close>

datatype control = Continue | Return | Throw error

text \<open>Lines 69-87: the event-check webhook.\<close>

definition eventCheckWebhook ::
  "environment \<Rightarrow> Settings \<Rightarrow> Event \<Rightarrow> world \<Rightarrow> control \<times> world" where
  "eventCheckWebhook env s event w =
     (case webhooks s of
        None \<Rightarrow> (Continue, w)
      | Some wh \<Rightarrow>
          if eventChecks wh \<and> baseURL wh \<noteq> [] \<and> truthy (ep_eventCheck wh) then
            (case post env (baseURL wh @ template (ep_eventCheck wh)) (EventBody event) w of
               (Inl err, w') \<Rightarrow> (Throw err, w')
             | (Inr d, w') \<Rightarrow>
                 if \<not> r_success d
                 then (Return, emit (createCommandResult (ev_id event) False (r_reason d)) w')
                 else (Continue, w'))
          else (Continue, w))"

text \<open>Lines 96-102: the publication fee.\<close>

definition chargePublicationFee :: "Settings \<Rightarrow> Event \<Rightarrow> world \<Rightarrow> control \<times> world" where
  "chargePublicationFee s event w =
     (case payments s of
        None \<Rightarrow> (Continue, w)
      | Some p \<Rightarrow>
          (case publication p of
             [] \<Rightarrow> (Throw TypeError, w)
           | pub0 # _ \<Rightarrow>
               if enabled pub0
               then (Continue, updateUserBalance (ev_pubkey event) (amount pub0) ''decrement'' w)
               else (Continue, w)))"

text \<open>Lines 104-109: the strategy runs, and a throw is caught and reported.\<close>

definition executeStrategy :: "strategy \<Rightarrow> Event \<Rightarrow> world \<Rightarrow> world" where
  "executeStrategy strategy event w =
     (case strategy event w of
        (Returned, w') \<Rightarrow> w'
      | (Thrown, w') \<Rightarrow>
          emit (createCommandResult (ev_id event) False ''error: unable to process event'') w')"

text \<open>Lines 112-125: the event-callback webhook; its answer and its failure are only logged.\<close>

definition eventCallbackWebhook :: "environment \<Rightarrow> Settings \<Rightarrow> Event \<Rightarrow> world \<Rightarrow> world" where
  "eventCallbackWebhook env s event w =
     (case webhooks s of
        None \<Rightarrow> w
      | Some wh \<Rightarrow>
          if eventCallbacks wh \<and> baseURL wh \<noteq> [] \<and> truthy (ep_eventCallback wh)
          then snd (post env (baseURL wh @ template (ep_eventCallback wh)) (EventBody event) w)
          else w)"

text \<open>
  \<^verbatim>\<open>handleMessage\<close>. The result is the error the returned promise is rejected with, if
  any, and the world it leaves.
\<close>

definition handleMessage ::
  "environment \<Rightarrow> Settings \<Rightarrow> IncomingEventMessage \<Rightarrow> world \<Rightarrow> error option \<times> world" where
  "handleMessage env s message w =
     (let event = (msg_event message)\<lparr>ev_context := msg_context message\<rparr>
      in case isEventValid env event of
           Some reason \<Rightarrow> (None, emit (createCommandResult (ev_id event) False reason) w)
         | None \<Rightarrow>
             if isExpiredEvent env event
             then (None, emit (createCommandResult (ev_id event) False ''event is expired'') w)
             else
               (let event = addExpirationMetadata env event
                in case isRateLimited env s event w of
                     (True, w1) \<Rightarrow>
                       (None,
                        emit (createCommandResult (ev_id event) False ''rate-limited: slow down'') w1)
                   | (False, w1) \<Rightarrow>
                       (case canAcceptEvent env s event of
                          Some reason \<Rightarrow>
                            (None, emit (createCommandResult (ev_id event) False reason) w1)
                        | None \<Rightarrow>
                            (case isUserAdmitted env s event w1 of
                               (Inl err, w2) \<Rightarrow> (Some err, w2)
                             | (Inr (Some reason), w2) \<Rightarrow>
                                 (None, emit (createCommandResult (ev_id event) False reason) w2)
                             | (Inr None, w2) \<Rightarrow>
                                 (case eventCheckWebhook env s event w2 of
                                    (Throw err, w3) \<Rightarrow> (Some err, w3)
                                  | (Return, w3) \<Rightarrow> (None, w3)
                                  | (Continue, w3) \<Rightarrow>
                                      (case strategyFactory env event of
                                         None \<Rightarrow>
                                           (None,
                                            emit (createCommandResult (ev_id event) False
                                                    ''error: event not supported'') w3)
                                       | Some strategy \<Rightarrow>
                                           (case chargePublicationFee s event w3 of
                                              (Throw err, w4) \<Rightarrow> (Some err, w4)
                                            | (Return, w4) \<Rightarrow> (None, w4)
                                            | (Continue, w4) \<Rightarrow>
                                                (None,
                                                 eventCallbackWebhook env s event
                                                   (executeStrategy strategy event w4)))))))))"

subsection \<open>The administrative endpoint\<close>

record Request =
  query_token :: "string option"
  query_pubkey :: "string option"

text \<open>\<^verbatim>\<open>res.status(n).send(text)\<close> and \<^verbatim>\<open>res.status(n).json({balance})\<close>.\<close>

datatype reply = Send nat string | Json nat int

definition userRequestHandler :: "environment \<Rightarrow> Request \<Rightarrow> world \<Rightarrow> reply \<times> world" where
  "userRequestHandler env req w =
     (if \<not> truthy (RELAY_API_KEY env) \<or> \<not> truthy (query_token req)
      then (Send 403 ''Unauthorized'', w)
      else if \<not> truthy (query_pubkey req) then (Send 400 ''Must send pubkey in query'', w)
      else
        (case getBalanceByPubkey (template (query_pubkey req)) w of
           (bal, w') \<Rightarrow>
             if bal = 0 then (Send 404 ''Pubkey not found'', w')
             else (Json 200 bal, w')))"

subsection \<open>Example inputs\<close>

text \<open>
  A kind-1 note of five characters, an environment in which every check of the helpers
  passes, every remote server answers with success and the strategy acknowledges the event,
  settings that configure nothing, and an empty world.
\<close>

definition event0 :: Event where
  "event0 =
     \<lparr>ev_id = ''e1'', ev_pubkey = ''ab12'', ev_created_at = 1700000000, ev_kind = 1,
      ev_tags = [], ev_content = ''hello'', ev_sig = ''sig'', ev_context = None,
      ev_expiration = None\<rparr>"

definition message0 :: IncomingEventMessage where
  "message0 = \<lparr>msg_event = event0, msg_context = Some ''10.0.0.1''\<rparr>"

definition event1 :: Event where
  "event1 = event0\<lparr>ev_context := Some ''10.0.0.1''\<rparr>"

definition settings0 :: Settings where
  "settings0 = \<lparr>payments = None, limits_event = None, webhooks = None\<rparr>"

definition data0 :: http_data where
  "data0 =
     \<lparr>r_success = True, r_reason = [], r_isAdmitted = True, r_balance = Some 500,
      r_createdAt = 1675727291, r_updatedAt = 1675727387\<rparr>"

definition strategy0 :: strategy where
  "strategy0 event w = (Returned, emit (createCommandResult (ev_id event) True []) w)"

definition env0 :: environment where
  "env0 =
     \<lparr>isEventIdValid = (\<lambda>_. True), isEventSignatureValid = (\<lambda>_. True),
      isExpiredEvent = (\<lambda>_. False), getEventExpiration = (\<lambda>_. None),
      getEventProofOfWork = (\<lambda>_. 12), getPubkeyProofOfWork = (\<lambda>_. 12),
      now_seconds = 1700000000, now_date = 1700000000000, getClientAddress = ''10.0.0.1'',
      rateLimiterHit = (\<lambda>_ _. False), httpPost = (\<lambda>_ _ _. Inr data0),
      strategyFactory = (\<lambda>_. Some strategy0), VIDA_API_KEY = Some ''token'',
      RELAY_API_KEY = Some ''key'', repoSettings = settings0\<rparr>"

definition world0 :: world where
  "world0 =
     \<lparr>users = Map.empty, db_log = [], cache = Map.empty, http_log = [], rl_log = [],
      emitted = []\<rparr>"

text \<open>Content limits in a sequence, scoped by kind, and a proof-of-work threshold.\<close>

definition settingsC2 :: Settings where
  "settingsC2 =
     \<lparr>payments = None,
      limits_event = Some (noEventLimits
        \<lparr>lim_eventId := Some \<lparr>eid_minLeadingZeroBits = Some 16\<rparr>,
         lim_content := Some (ContentMany
           [\<lparr>cl_kinds = Some [KindExact 2], cl_maxLength = Some 3\<rparr>,
            \<lparr>cl_kinds = Some [KindRange 0 1], cl_maxLength = Some 4\<rparr>,
            \<lparr>cl_kinds = None, cl_maxLength = Some 2\<rparr>])\<rparr>),
      webhooks = None\<rparr>"

subsection \<open>Rate limiting, as the specification words it\<close>

text \<open>
  The configured records, the bypass, the records that apply to the kind of the event, the
  hit of a record, and the answers of the limiter to a sequence of hits made one after the
  other.
\<close>

definition configuredRateLimits :: "Settings \<Rightarrow> EventRateLimit list" where
  "configuredRateLimits s = listed (lim_rateLimits (eventLimits s))"

definition rateLimitBypass :: "environment \<Rightarrow> Settings \<Rightarrow> Event \<Rightarrow> bool" where
  "rateLimitBypass env s event =
     (ev_pubkey event \<in> set (listed (Option.bind (lim_whitelists (eventLimits s)) wl_pubkeys))
      \<or> getClientAddress env
          \<in> set (listed (Option.bind (lim_whitelists (eventLimits s)) wl_ipAddresses)))"

definition applies :: "Event \<Rightarrow> EventRateLimit \<Rightarrow> bool" where
  "applies event r =
     (case rl_kinds r of
        None \<Rightarrow> True
      | Some ks \<Rightarrow> list_ex (isEventKindOrRangeMatch event) ks)"

definition hitOf :: "Event \<Rightarrow> EventRateLimit \<Rightarrow> rl_hit" where
  "hitOf event r = (hitKey event r, 1, rl_period r, rl_rate r)"

fun hitAnswers :: "environment \<Rightarrow> rl_hit list \<Rightarrow> rl_hit list \<Rightarrow> bool list" where
  "hitAnswers env log [] = []"
| "hitAnswers env log (h # hs) = rateLimiterHit env log h # hitAnswers env (log @ [h]) hs"

text \<open>
  Two records that apply to a kind-1 event and one that does not, and a limiter that counts
  the hits of a key.
\<close>

definition settingsC3 :: Settings where
  "settingsC3 =
     \<lparr>payments = None,
      limits_event = Some (noEventLimits
        \<lparr>lim_rateLimits := Some
           [\<lparr>rl_period = 60000, rl_rate = 0, rl_kinds = None\<rparr>,
            \<lparr>rl_period = 1000, rl_rate = 0, rl_kinds = Some [KindExact 7]\<rparr>,
            \<lparr>rl_period = 3600000, rl_rate = 50,
             rl_kinds = Some [KindExact 1, KindRange 5 7]\<rparr>],
         lim_whitelists := Some \<lparr>wl_pubkeys = Some [''ff00''], wl_ipAddresses = None\<rparr>\<rparr>),
      webhooks = None\<rparr>"

definition countingLimiter :: "rl_hit list \<Rightarrow> rl_hit \<Rightarrow> bool" where
  "countingLimiter log h =
     (case h of (k, step, period, rate) \<Rightarrow>
        rate < int (length (filter (\<lambda>h'. fst h' = k) log)) + step)"

definition envC3 :: environment where
  "envC3 = env0\<lparr>rateLimiterHit := countingLimiter\<rparr>"

text \<open>A stored user with a balance of zero, and a world that holds this one row.\<close>

definition dbuser0 :: DBUser where
  "dbuser0 =
     \<lparr>db_pubkey = ''ab12'', is_admitted = False, db_balance = 0, tos_accepted_at = None,
      updated_at = 1600000000000, created_at = 1600000000000\<rparr>"

definition world1 :: world where
  "world1 = world0\<lparr>users := [''ab12'' \<mapsto> dbuser0]\<rparr>"

definition user0 :: User where
  "user0 =
     \<lparr>u_pubkey = ''ab12'', isAdmitted = True, balance = 700, createdAt = 5, updatedAt = 6,
      tosAcceptedAt = Some 7\<rparr>"

text \<open>
  A stored user who accepted the terms, and a user record without \<^verbatim>\<open>tosAcceptedAt\<close>, as
  the pubkey-check webhook gives it.
\<close>

definition dbuser2 :: DBUser where
  "dbuser2 = dbuser0\<lparr>tos_accepted_at := Some 1650000000000\<rparr>"

definition world5 :: world where
  "world5 = world0\<lparr>users := [''ab12'' \<mapsto> dbuser2]\<rparr>"

definition user1 :: User where
  "user1 = user0\<lparr>tosAcceptedAt := None\<rparr>"

text \<open>
  The address the repository posts a pubkey check to: there is one when the webhook is
  switched on, the base address and the endpoint are set, and the API token is in the
  process environment.
\<close>

definition pubkeyCheckUrl :: "environment \<Rightarrow> string option" where
  "pubkeyCheckUrl env =
     (case webhooks (repoSettings env) of
        None \<Rightarrow> None
      | Some wh \<Rightarrow>
          if pubkeyChecks wh \<and> baseURL wh \<noteq> [] \<and> truthy (ep_pubkeyCheck wh)
             \<and> truthy (VIDA_API_KEY env)
          then Some (baseURL wh @ template (ep_pubkeyCheck wh) @ ''?token=''
                     @ template (VIDA_API_KEY env))
          else None)"

text \<open>Settings with the pubkey-check webhook, and servers that admit or refuse.\<close>

definition webhooks0 :: Webhooks where
  "webhooks0 =
     \<lparr>pubkeyChecks = True, topUps = True, eventChecks = True, eventCallbacks = True,
      baseURL = ''https://h'', ep_pubkeyCheck = Some ''/pk'', ep_eventCheck = Some ''/check'',
      ep_eventCallback = Some ''/done'', ep_topUps = Some ''/topup''\<rparr>"

definition settingsW :: Settings where
  "settingsW = \<lparr>payments = None, limits_event = None, webhooks = Some webhooks0\<rparr>"

definition envW :: environment where
  "envW = env0\<lparr>repoSettings := settingsW\<rparr>"

definition envRefuse :: environment where
  "envRefuse = envW\<lparr>httpPost := (\<lambda>_ _ _. Inr (data0\<lparr>r_isAdmitted := False\<rparr>))\<rparr>"

definition world2 :: world where
  "world2 = world0\<lparr>cache := [''ab12:is-blocked'' \<mapsto> (''true'', Some 60)]\<rparr>"

text \<open>
  Paid admission: an admission fee, a publication fee of 100, a top-up of 10 and a minimum
  balance of 1000; an admitted user with a balance of 50.
\<close>

definition payments1 :: Payments where
  "payments1 =
     \<lparr>pay_enabled = True,
      admission = [\<lparr>enabled = True, amount = 1000, fee_whitelist = Some [''ff'']\<rparr>],
      publication = [\<lparr>enabled = True, amount = 100, fee_whitelist = None\<rparr>],
      topUp = [\<lparr>enabled = True, amount = 10, fee_whitelist = None\<rparr>]\<rparr>"

definition settingsP :: Settings where
  "settingsP =
     \<lparr>payments = Some payments1,
      limits_event = Some (noEventLimits
        \<lparr>lim_pubkey := Some \<lparr>minBalance = Some 1000, pk_minLeadingZeroBits = None,
                              pk_whitelist = None, pk_blacklist = None\<rparr>\<rparr>),
      webhooks = Some webhooks0\<rparr>"

definition envP :: environment where
  "envP = env0\<lparr>repoSettings := settingsP\<rparr>"

definition dbuser1 :: DBUser where
  "dbuser1 = dbuser0\<lparr>is_admitted := True, db_balance := 50\<rparr>"

definition world3 :: world where
  "world3 = world0\<lparr>users := [''ab12'' \<mapsto> dbuser1]\<rparr>"

text \<open>The same, with a server that answers every request without success.\<close>

definition envFail :: environment where
  "envFail = envP\<lparr>httpPost := (\<lambda>_ _ _. Inr (data0\<lparr>r_success := False\<rparr>))\<rparr>"

subsection \<open>The pipeline, stage by stage\<close>

text \<open>
  The event as \<^verbatim>\<open>handleMessage\<close> receives it and as it goes through the stages after the
  expiration metadata is attached; the address of the event-check webhook, when it is
  configured and switched on; and what it is for a submission to pass the stages up to user
  admission from a world \<open>w\<close>, leaving the world \<open>w2\<close>.
\<close>

definition receivedEvent :: "IncomingEventMessage \<Rightarrow> Event" where
  "receivedEvent m = (msg_event m)\<lparr>ev_context := msg_context m\<rparr>"

definition pipelineEvent :: "environment \<Rightarrow> IncomingEventMessage \<Rightarrow> Event" where
  "pipelineEvent env m = addExpirationMetadata env (receivedEvent m)"

definition eventCheckUrl :: "Settings \<Rightarrow> string option" where
  "eventCheckUrl s =
     (case webhooks s of
        None \<Rightarrow> None
      | Some wh \<Rightarrow>
          if eventChecks wh \<and> baseURL wh \<noteq> [] \<and> truthy (ep_eventCheck wh)
          then Some (baseURL wh @ template (ep_eventCheck wh))
          else None)"

definition passesAdmission ::
  "environment \<Rightarrow> Settings \<Rightarrow> IncomingEventMessage \<Rightarrow> world \<Rightarrow> world \<Rightarrow> bool" where
  "passesAdmission env s m w w2 =
     (isEventValid env (receivedEvent m) = None
      \<and> \<not> isExpiredEvent env (receivedEvent m)
      \<and> canAcceptEvent env s (pipelineEvent env m) = None
      \<and> (case isRateLimited env s (pipelineEvent env m) w of
            (limited, w1) \<Rightarrow>
              \<not> limited \<and> isUserAdmitted env s (pipelineEvent env m) w1 = (Inr None, w2)))"

definition rejection :: "IncomingEventMessage \<Rightarrow> string \<Rightarrow> message" where
  "rejection m text = CommandResult (ev_id (msg_event m)) False text"

text \<open>
  Servers that veto or cannot be reached, a strategy that throws, an event identifier
  that does not match, a publication fee with no webhook, and an admitted user with a balance
  of 500.
\<close>

definition envVeto :: environment where
  "envVeto = env0\<lparr>httpPost := (\<lambda>_ _ _. Inr (data0\<lparr>r_success := False, r_reason := ''spam''\<rparr>))\<rparr>"

definition envDown :: environment where
  "envDown = env0\<lparr>httpPost := (\<lambda>_ _ _. Inl TransportFailure)\<rparr>"

definition thrower :: strategy where
  "thrower event w = (Thrown, w)"

definition envThrow :: environment where
  "envThrow = env0\<lparr>strategyFactory := (\<lambda>_. Some thrower)\<rparr>"

definition envBad :: environment where
  "envBad = env0\<lparr>isEventIdValid := (\<lambda>_. False)\<rparr>"

definition settingsFee :: Settings where
  "settingsFee = \<lparr>payments = Some payments1, limits_event = None, webhooks = None\<rparr>"

definition world4 :: world where
  "world4 = world0\<lparr>users := [''ab12'' \<mapsto> dbuser1\<lparr>db_balance := 500\<rparr>]\<rparr>"

section \<open>Properties\<close>

subsection \<open>The policy evaluator\<close>

lemma contentLoop_find:
  "contentLoop event ls = map_option contentReason (find (contentViolated event) ls)"
  by (induction ls)
     (auto simp: contentViolated_def contentReason_def threshold_def some_def
           split: option.splits)

lemma checkContent_rule: "checkContent limits event = contentRule event (lim_content limits)"
  by (auto simp: checkContent_def contentRule_def contentLoop_find rule_def contentViolated_def
        contentReason_def threshold_def some_def split: option.splits content_setting.splits)

lemma first_some_Cons:
  "first_some (x # xs) = (case x of Some r \<Rightarrow> Some r | None \<Rightarrow> first_some xs)"
  by (cases x) simp_all

lemma checkFutureSkew_rule:
  "checkFutureSkew now limits event =
     (let d = threshold (Option.bind (lim_createdAt limits) maxPositiveDelta)
      in rule (0 < d \<and> ev_created_at event > now + d)
           (''rejected: created_at is more than '' @ string_of_int d @ '' seconds in the future''))"
  by (simp add: checkFutureSkew_def rule_def threshold_def split: option.splits)

lemma checkPastSkew_rule:
  "checkPastSkew now limits event =
     (let d = threshold (Option.bind (lim_createdAt limits) maxNegativeDelta)
      in rule (0 < d \<and> ev_created_at event < now - d)
           (''rejected: created_at is more than '' @ string_of_int d @ '' seconds in the past''))"
  by (simp add: checkPastSkew_def rule_def threshold_def split: option.splits)

lemma checkEventIdPow_rule:
  "checkEventIdPow env limits event =
     (let bits = threshold (Option.bind (lim_eventId limits) eid_minLeadingZeroBits);
          pow = getEventProofOfWork env (ev_id event)
      in rule (0 < bits \<and> pow < bits)
           (''pow: difficulty '' @ string_of_int pow @ ''<'' @ string_of_int bits))"
  by (simp add: checkEventIdPow_def Let_def rule_def threshold_def split: option.splits)

lemma checkPubkeyPow_rule:
  "checkPubkeyPow env limits event =
     (let bits = threshold (Option.bind (lim_pubkey limits) pk_minLeadingZeroBits);
          pow = getPubkeyProofOfWork env (ev_pubkey event)
      in rule (0 < bits \<and> pow < bits)
           (''pow: pubkey difficulty '' @ string_of_int pow @ ''<'' @ string_of_int bits))"
  by (simp add: checkPubkeyPow_def Let_def rule_def threshold_def split: option.splits)

lemma checkPubkeyWhitelist_rule:
  "checkPubkeyWhitelist limits event =
     (let wl = listed (Option.bind (lim_pubkey limits) pk_whitelist)
      in rule (wl \<noteq> [] \<and> \<not> list_ex (startsWith (ev_pubkey event)) wl)
           ''blocked: pubkey not allowed'')"
  by (simp add: checkPubkeyWhitelist_def rule_def listed_def some_def split: option.splits)

lemma checkPubkeyBlacklist_rule:
  "checkPubkeyBlacklist limits event =
     (let bl = listed (Option.bind (lim_pubkey limits) pk_blacklist)
      in rule (bl \<noteq> [] \<and> list_ex (startsWith (ev_pubkey event)) bl)
           ''blocked: pubkey not allowed'')"
  by (simp add: checkPubkeyBlacklist_def rule_def listed_def some_def split: option.splits)

lemma checkKindWhitelist_rule:
  "checkKindWhitelist limits event =
     (let wl = listed (Option.bind (lim_kind limits) k_whitelist)
      in rule (wl \<noteq> [] \<and> \<not> list_ex (isEventKindOrRangeMatch event) wl)
           (''blocked: event kind '' @ string_of_int (ev_kind event) @ '' not allowed''))"
  by (simp add: checkKindWhitelist_def rule_def listed_def some_def split: option.splits)

lemma checkKindBlacklist_rule:
  "checkKindBlacklist limits event =
     (let bl = listed (Option.bind (lim_kind limits) k_blacklist)
      in rule (bl \<noteq> [] \<and> list_ex (isEventKindOrRangeMatch event) bl)
           (''blocked: event kind '' @ string_of_int (ev_kind event) @ '' not allowed''))"
  by (simp add: checkKindBlacklist_def rule_def listed_def some_def split: option.splits)

text \<open>
  Claim C2. \<^verbatim>\<open>canAcceptEvent\<close> is a function of the event, the settings and the clock
  alone, and its answer is the reason of the first violated rule of the table, in the order
  content length, future skew, past skew, event-id proof of work, pubkey proof of work,
  pubkey allowlist, pubkey denylist, kind allowlist, kind denylist, with the reason strings
  of the table; it is \<open>None\<close> when no rule is violated. When \<^verbatim>\<open>limits.event.content\<close> is a
  sequence, the content rule gives the reason of the first record of the sequence that is
  violated.
\<close>

theorem canAcceptEvent_first_violated_rule:
  "canAcceptEvent env s event = first_some (policyRules env s event)"
  unfolding canAcceptEvent_def policyRules_def
  by (simp only: Let_def first_some_Cons first_some.simps checkContent_rule checkFutureSkew_rule
        checkPastSkew_rule checkEventIdPow_rule checkPubkeyPow_rule checkPubkeyWhitelist_rule
        checkPubkeyBlacklist_rule checkKindWhitelist_rule checkKindBlacklist_rule)
     (simp split: option.splits)

theorem canAcceptEvent_first_violated_rule_witness:
  "canAcceptEvent env0 settingsC2 event0 = Some ''rejected: content is longer than 4 bytes''
   \<and> canAcceptEvent env0 settingsC2 (event0\<lparr>ev_content := ''hi''\<rparr>)
       = Some ''pow: difficulty 12<16''"
  using canAcceptEvent_first_violated_rule [of env0 settingsC2 event0]
    canAcceptEvent_first_violated_rule [of env0 settingsC2 "event0\<lparr>ev_content := ''hi''\<rparr>"]
  by (simp add: policyRules_def settingsC2_def event0_def env0_def eventLimits_def noEventLimits_def
        contentRule_def contentViolated_def contentReason_def threshold_def listed_def rule_def
        isEventKindOrRangeMatch_def string_of_int_def string_of_nat.simps Let_def)

subsection \<open>Rate limiting\<close>

lemma rateLimitLoop_hits:
  "rateLimitLoop env event rls limited w =
     (limited \<or> list_ex id (hitAnswers env (rl_log w) (map (hitOf event) (filter (applies event) rls))),
      w\<lparr>rl_log := rl_log w @ map (hitOf event) (filter (applies event) rls)\<rparr>)"
proof (induction rls arbitrary: limited w)
  case Nil
  show ?case by simp
next
  case (Cons r rls)
  show ?case
  proof (cases "applies event r")
    case False
    then show ?thesis
      using Cons.IH [of limited w]
      by (simp add: applies_def some_def split: option.splits)
  next
    case True
    then show ?thesis
      using Cons.IH [of "if rateLimiterHit env (rl_log w) (hitOf event r) then True else limited"
          "w\<lparr>rl_log := rl_log w @ [hitOf event r]\<rparr>"]
      by (simp add: applies_def some_def hit_def hitOf_def Let_def split: option.splits)
  qed
qed

text \<open>
  Claim C3. With no rate limits configured, or with the pubkey of the event among
  \<^verbatim>\<open>whitelists.pubkeys\<close> or the client address among \<^verbatim>\<open>whitelists.ipAddresses\<close>,
  \<^verbatim>\<open>isRateLimited\<close> answers false and leaves the world, the hits of the limiter included,
  as it was. Otherwise it makes one hit for every record that applies to the kind of the
  event, in order and whatever the earlier answers were, under the key \<open>hitKey\<close>
  (\<^verbatim>\<open><pubkey>:events:<period>\<close>, followed by \<^verbatim>\<open>:[<kinds>]\<close> when the record has kinds),
  and answers true exactly when the limiter answered true to one of these hits.
\<close>

theorem isRateLimited_hits_every_applicable_record:
  "isRateLimited env s event w =
     (if configuredRateLimits s = [] \<or> rateLimitBypass env s event then (False, w)
      else
        (let hs = map (hitOf event) (filter (applies event) (configuredRateLimits s))
         in (list_ex id (hitAnswers env (rl_log w) hs), w\<lparr>rl_log := rl_log w @ hs\<rparr>)))"
  by (simp add: isRateLimited_def configuredRateLimits_def rateLimitBypass_def listed_def
        rateLimitLoop_hits Let_def split: option.splits)

theorem isRateLimited_hits_every_applicable_record_witness:
  "isRateLimited envC3 settingsC3 event0 world0 =
     (True, world0\<lparr>rl_log := [(''ab12:events:60000'', 1, 60000, 0),
                                (''ab12:events:3600000:[1,[5,7]]'', 1, 3600000, 50)]\<rparr>)
   \<and> isRateLimited envC3 settingsC3 (event0\<lparr>ev_pubkey := ''ff00''\<rparr>) world0 = (False, world0)"
  using isRateLimited_hits_every_applicable_record [of envC3 settingsC3 event0 world0]
    isRateLimited_hits_every_applicable_record
      [of envC3 settingsC3 "event0\<lparr>ev_pubkey := ''ff00''\<rparr>" world0]
  by (simp add: configuredRateLimits_def rateLimitBypass_def settingsC3_def envC3_def env0_def
        event0_def world0_def eventLimits_def noEventLimits_def listed_def applies_def hitOf_def
        hitKey_def toString_kinds_def isEventKindOrRangeMatch_def countingLimiter_def
        string_of_int_def string_of_nat.simps Let_def)

subsection \<open>The user repository\<close>

lemma merge_columns:
  "omit [ColPubkey, ColBalance, ColCreatedAt] rowColumns
     = [ColIsAdmitted, ColTosAcceptedAt, ColUpdatedAt]"
  by (simp add: omit_def rowColumns_def)

text \<open>
  Claim C9, as amended. \<^verbatim>\<open>upsert(user)\<close> returns the row count, which is one. When no
  row has the public key of the user, the row built from the user is inserted. When a row
  has it, the columns \<^verbatim>\<open>is_admitted\<close> and \<^verbatim>\<open>updated_at\<close> take the new values, and so
  does \<^verbatim>\<open>tos_accepted_at\<close> when the user has a \<^verbatim>\<open>tosAcceptedAt\<close>; \<^verbatim>\<open>pubkey\<close>,
  \<^verbatim>\<open>balance\<close> and \<^verbatim>\<open>created_at\<close> keep the stored values, and \<^verbatim>\<open>tos_accepted_at\<close>
  keeps it too when the user has no \<^verbatim>\<open>tosAcceptedAt\<close>. No other row changes.
\<close>

theorem upsert_merges_defined_columns:
  "fst (upsert env user w) = 1
   \<and> (users w (u_pubkey user) = None \<longrightarrow>
        users (snd (upsert env user w)) (u_pubkey user)
          = Some \<lparr>db_pubkey = u_pubkey user, is_admitted = isAdmitted user,
                  db_balance = balance user, tos_accepted_at = tosAcceptedAt user,
                  updated_at = now_date env, created_at = now_date env\<rparr>)
   \<and> (\<forall>old. users w (u_pubkey user) = Some old \<longrightarrow>
        users (snd (upsert env user w)) (u_pubkey user)
          = Some \<lparr>db_pubkey = db_pubkey old, is_admitted = isAdmitted user,
                  db_balance = db_balance old,
                  tos_accepted_at =
                    (case tosAcceptedAt user of
                       None \<Rightarrow> tos_accepted_at old
                     | Some t \<Rightarrow> Some t),
                  updated_at = now_date env, created_at = created_at old\<rparr>)
   \<and> (\<forall>k. k \<noteq> u_pubkey user \<longrightarrow> users (snd (upsert env user w)) k = users w k)"
  by (cases "users w (u_pubkey user)"; cases "tosAcceptedAt user")
     (simp_all add: upsert_def insertOnConflictMerge_def merge_columns toBuffer_def Let_def)

theorem upsert_merges_defined_columns_witness:
  "fst (upsert env0 user0 world1) = 1
   \<and> users (snd (upsert env0 user0 world1)) ''ab12''
       = Some \<lparr>db_pubkey = ''ab12'', is_admitted = True, db_balance = 0,
               tos_accepted_at = Some 7, updated_at = 1700000000000,
               created_at = 1600000000000\<rparr>
   \<and> users (snd (upsert env0 user0 world0)) ''ab12''
       = Some \<lparr>db_pubkey = ''ab12'', is_admitted = True, db_balance = 700,
               tos_accepted_at = Some 7, updated_at = 1700000000000,
               created_at = 1700000000000\<rparr>
   \<and> users (snd (upsert env0 user1 world5)) ''ab12''
       = Some \<lparr>db_pubkey = ''ab12'', is_admitted = True, db_balance = 0,
               tos_accepted_at = Some 1650000000000, updated_at = 1700000000000,
               created_at = 1600000000000\<rparr>"
  using upsert_merges_defined_columns [of env0 user0 world1]
    upsert_merges_defined_columns [of env0 user0 world0]
    upsert_merges_defined_columns [of env0 user1 world5]
  by (simp add: user0_def user1_def world1_def world5_def world0_def dbuser0_def dbuser2_def
        env0_def)

text \<open>
  Claim C9, as stated, fails. For a user without \<^verbatim>\<open>tosAcceptedAt\<close> and a stored row that
  has a \<^verbatim>\<open>tos_accepted_at\<close>, the row built from the user has no value for the column, and
  after the upsert the column, which is none of \<^verbatim>\<open>pubkey\<close>, \<^verbatim>\<open>balance\<close> and
  \<^verbatim>\<open>created_at\<close>, still has its stored value.
\<close>

theorem upsert_keeps_tos_accepted_at_counterexample:
  "tosAcceptedAt user1 = None
   \<and> map_option tos_accepted_at (users world5 ''ab12'') = Some (Some 1650000000000)
   \<and> map_option tos_accepted_at (users (snd (upsert env0 user1 world5)) ''ab12'')
       = Some (Some 1650000000000)"
  by (simp add: upsert_def insertOnConflictMerge_def merge_columns toBuffer_def Let_def
        user0_def user1_def world5_def world0_def dbuser0_def dbuser2_def env0_def)

subsection \<open>The administrative endpoint\<close>

lemma userRequestHandler_cases:
  "fst (userRequestHandler env req w) =
     (if \<not> truthy (RELAY_API_KEY env) \<or> \<not> truthy (query_token req) then Send 403 ''Unauthorized''
      else if \<not> truthy (query_pubkey req) then Send 400 ''Must send pubkey in query''
      else (case users w (template (query_pubkey req)) of
              None \<Rightarrow> Send 404 ''Pubkey not found''
            | Some u \<Rightarrow> if db_balance u = 0 then Send 404 ''Pubkey not found''
                        else Json 200 (db_balance u)))"
  by (simp add: userRequestHandler_def getBalanceByPubkey_def toBuffer_def Let_def
        split: option.splits)

text \<open>
  Claim C8. The endpoint is to answer 404 when the user is unknown and 200 with the balance
  otherwise. For a stored user whose balance is zero, \<^verbatim>\<open>getBalanceByPubkey\<close> gives
  \<^verbatim>\<open>0n\<close>, the test \<^verbatim>\<open>if (!balance)\<close> holds, and the endpoint answers 404 with the text
  \<^verbatim>\<open>Pubkey not found\<close>, though the key and the token are there and the public key is
  found.
\<close>

theorem userRequestHandler_zero_balance_not_found:
  "users world1 ''ab12'' = Some dbuser0
   \<and> fst (userRequestHandler env0
            \<lparr>query_token = Some ''key'', query_pubkey = Some ''ab12''\<rparr> world1)
       = Send 404 ''Pubkey not found''"
  by (simp add: userRequestHandler_def getBalanceByPubkey_def truthy_def template_def toBuffer_def
        env0_def world1_def world0_def dbuser0_def Let_def)

theorem userRequestHandler_zero_balance_not_found_witness:
  "fst (userRequestHandler env0
          \<lparr>query_token = Some ''key'', query_pubkey = Some ''ab12''\<rparr> world1)
     \<noteq> Json 200 (db_balance dbuser0)"
  using userRequestHandler_zero_balance_not_found by simp

subsection \<open>Looking a user up\<close>

lemma fetchUserByWebhook_answer:
  "fetchUserByWebhook env pk w =
     (case pubkeyCheckUrl env of
        None \<Rightarrow> (Inr None, w)
      | Some url \<Rightarrow>
          (case topUpAmount (repoSettings env) of
             Inl err \<Rightarrow> (Inl err, w)
           | Inr n \<Rightarrow>
               (let w' = w\<lparr>http_log := http_log w @ [(url, PubkeyAmountBody pk n)]\<rparr>
                in case httpPost env (http_log w) url (PubkeyAmountBody pk n) of
                     Inl err \<Rightarrow> (Inl err, w')
                   | Inr d \<Rightarrow>
                       if r_isAdmitted d then
                         (case r_balance d of
                            None \<Rightarrow> (Inl TypeError, w')
                          | Some b \<Rightarrow>
                              (Inr (Some \<lparr>u_pubkey = pk, isAdmitted = True, balance = b,
                                          createdAt = r_createdAt d, updatedAt = r_updatedAt d,
                                          tosAcceptedAt = None\<rparr>), w'))
                       else (Inr None, w'))))"
  by (simp add: fetchUserByWebhook_def pubkeyCheckUrl_def post_def Let_def
        split: option.splits sum.splits)

text \<open>
  Claim C6. \<^verbatim>\<open>findByPubkey\<close> looks the key \<^verbatim>\<open><pubkey>:is-blocked\<close> up in the cache first
  and, when it is there, returns none and leaves the world as it was: no statement is sent to
  the datastore and no request is posted. Otherwise, when the datastore has the user, the
  user is returned and only the select is sent. Otherwise, when the pubkey-check webhook
  answers with \<^verbatim>\<open>isAdmitted\<close>, the row \<^verbatim>\<open>{pubkey, isAdmitted, balance}\<close> with
  \<^verbatim>\<open>created_at\<close>, \<^verbatim>\<open>updated_at\<close> and \<^verbatim>\<open>tos_accepted_at\<close> set to the current date is
  stored and the user of the answer is returned; when the webhook refuses, or is not
  configured and so gives no answer, the key \<^verbatim>\<open><pubkey>:is-blocked\<close> is set to
  \<^verbatim>\<open>true\<close> with a time to live of 60 seconds and none is returned.
\<close>

theorem findByPubkey_cache_datastore_webhook:
  "(cache w (pk @ '':is-blocked'') \<noteq> None \<longrightarrow> findByPubkey env pk w = (Inr None, w))
   \<and> (cache w (pk @ '':is-blocked'') = None \<longrightarrow>
       (\<forall>dbuser. users w pk = Some dbuser \<longrightarrow>
          findByPubkey env pk w
            = (Inr (Some (fromDBUser dbuser)), w\<lparr>db_log := db_log w @ [SelectUser pk]\<rparr>))
       \<and> (users w pk = None \<longrightarrow>
          (\<forall>url n d b.
             pubkeyCheckUrl env = Some url \<and> topUpAmount (repoSettings env) = Inr n
             \<and> httpPost env (http_log w) url (PubkeyAmountBody pk n) = Inr d
             \<and> r_isAdmitted d \<and> r_balance d = Some b \<longrightarrow>
             fst (findByPubkey env pk w)
               = Inr (Some \<lparr>u_pubkey = pk, isAdmitted = True, balance = b,
                            createdAt = r_createdAt d, updatedAt = r_updatedAt d,
                            tosAcceptedAt = None\<rparr>)
             \<and> users (snd (findByPubkey env pk w))
                 = (users w)(pk \<mapsto>
                     \<lparr>db_pubkey = pk, is_admitted = True, db_balance = b,
                      tos_accepted_at = Some (now_date env), updated_at = now_date env,
                      created_at = now_date env\<rparr>)
             \<and> cache (snd (findByPubkey env pk w)) = cache w)
          \<and> (\<forall>url n d.
                pubkeyCheckUrl env = None
                \<or> (pubkeyCheckUrl env = Some url \<and> topUpAmount (repoSettings env) = Inr n
                    \<and> httpPost env (http_log w) url (PubkeyAmountBody pk n) = Inr d
                    \<and> \<not> r_isAdmitted d) \<longrightarrow>
             fst (findByPubkey env pk w) = Inr None
             \<and> cache (snd (findByPubkey env pk w))
                 = (cache w)(pk @ '':is-blocked'' \<mapsto> (''true'', Some 60))
             \<and> users (snd (findByPubkey env pk w)) = users w)))"
proof -
  have blocked: "cache w (pk @ '':is-blocked'') \<noteq> None \<Longrightarrow> findByPubkey env pk w = (Inr None, w)"
    by (simp add: findByPubkey_def cacheExists_def)
  have stored:
    "findByPubkey env pk w
       = (Inr (Some (fromDBUser dbuser)), w\<lparr>db_log := db_log w @ [SelectUser pk]\<rparr>)"
    if "cache w (pk @ '':is-blocked'') = None" "users w pk = Some dbuser" for dbuser
    using that by (simp add: findByPubkey_def cacheExists_def toBuffer_def Let_def)
  have admitted:
    "fst (findByPubkey env pk w)
       = Inr (Some \<lparr>u_pubkey = pk, isAdmitted = True, balance = b,
                    createdAt = r_createdAt d, updatedAt = r_updatedAt d,
                    tosAcceptedAt = None\<rparr>)
     \<and> users (snd (findByPubkey env pk w))
         = (users w)(pk \<mapsto>
             \<lparr>db_pubkey = pk, is_admitted = True, db_balance = b,
              tos_accepted_at = Some (now_date env), updated_at = now_date env,
              created_at = now_date env\<rparr>)
     \<and> cache (snd (findByPubkey env pk w)) = cache w"
    if "cache w (pk @ '':is-blocked'') = None" "users w pk = None"
      "pubkeyCheckUrl env = Some url" "topUpAmount (repoSettings env) = Inr n"
      "httpPost env (http_log w) url (PubkeyAmountBody pk n) = Inr d"
      "r_isAdmitted d" "r_balance d = Some b" for url n d b
    using that
    by (simp add: findByPubkey_def cacheExists_def toBuffer_def Let_def upsert_def
          insertOnConflictMerge_def fetchUserByWebhook_answer)
  have unconfigured:
    "fst (findByPubkey env pk w) = Inr None
     \<and> cache (snd (findByPubkey env pk w))
         = (cache w)(pk @ '':is-blocked'' \<mapsto> (''true'', Some 60))
     \<and> users (snd (findByPubkey env pk w)) = users w"
    if "cache w (pk @ '':is-blocked'') = None" "users w pk = None" "pubkeyCheckUrl env = None"
    using that
    by (simp add: findByPubkey_def cacheExists_def toBuffer_def Let_def cacheSet_def
          cacheExpire_def fetchUserByWebhook_answer)
  have refused:
    "fst (findByPubkey env pk w) = Inr None
     \<and> cache (snd (findByPubkey env pk w))
         = (cache w)(pk @ '':is-blocked'' \<mapsto> (''true'', Some 60))
     \<and> users (snd (findByPubkey env pk w)) = users w"
    if "cache w (pk @ '':is-blocked'') = None" "users w pk = None"
      "pubkeyCheckUrl env = Some url" "topUpAmount (repoSettings env) = Inr n"
      "httpPost env (http_log w) url (PubkeyAmountBody pk n) = Inr d" "\<not> r_isAdmitted d"
    for url n d
    using that
    by (simp add: findByPubkey_def cacheExists_def toBuffer_def Let_def cacheSet_def
          cacheExpire_def fetchUserByWebhook_answer)
  show ?thesis
    using blocked stored admitted unconfigured refused by blast
qed

theorem findByPubkey_cache_datastore_webhook_witness:
  "findByPubkey envRefuse ''ab12'' world2 = (Inr None, world2)
   \<and> findByPubkey envW ''ab12'' world1
       = (Inr (Some (fromDBUser dbuser0)), world1\<lparr>db_log := [SelectUser ''ab12'']\<rparr>)
   \<and> fst (findByPubkey envW ''ab12'' world0)
       = Inr (Some \<lparr>u_pubkey = ''ab12'', isAdmitted = True, balance = 500,
                    createdAt = 1675727291, updatedAt = 1675727387, tosAcceptedAt = None\<rparr>)
   \<and> users (snd (findByPubkey envW ''ab12'' world0))
       = [''ab12'' \<mapsto>
            \<lparr>db_pubkey = ''ab12'', is_admitted = True, db_balance = 500,
             tos_accepted_at = Some 1700000000000, updated_at = 1700000000000,
             created_at = 1700000000000\<rparr>]
   \<and> fst (findByPubkey envRefuse ''ab12'' world0) = Inr None
   \<and> cache (snd (findByPubkey envRefuse ''ab12'' world0))
       = [''ab12:is-blocked'' \<mapsto> (''true'', Some 60)]"
proof -
  have url: "pubkeyCheckUrl envW = Some ''https://h/pk?token=token''"
    "pubkeyCheckUrl envRefuse = Some ''https://h/pk?token=token''"
    by (simp_all add: pubkeyCheckUrl_def envRefuse_def envW_def env0_def settingsW_def
          webhooks0_def truthy_def template_def)
  have n: "topUpAmount (repoSettings envW) = Inr 0" "topUpAmount (repoSettings envRefuse) = Inr 0"
    by (simp_all add: topUpAmount_def envRefuse_def envW_def env0_def settingsW_def)
  have p: "httpPost envW (http_log world0) ''https://h/pk?token=token''
             (PubkeyAmountBody ''ab12'' 0) = Inr data0"
    "httpPost envRefuse (http_log world0) ''https://h/pk?token=token''
             (PubkeyAmountBody ''ab12'' 0) = Inr (data0\<lparr>r_isAdmitted := False\<rparr>)"
    by (simp_all add: envRefuse_def envW_def env0_def)
  have d: "r_isAdmitted data0" "r_balance data0 = Some 500"
    "\<not> r_isAdmitted (data0\<lparr>r_isAdmitted := False\<rparr>)"
    "r_createdAt data0 = 1675727291" "r_updatedAt data0 = 1675727387"
    by (simp_all add: data0_def)
  have w0: "cache world0 ''ab12:is-blocked'' = None" "users world0 ''ab12'' = None"
    "now_date envW = 1700000000000" "users world0 = Map.empty" "cache world0 = Map.empty"
    by (simp_all add: world0_def envW_def env0_def)
  have w1: "cache world1 ''ab12:is-blocked'' = None" "users world1 ''ab12'' = Some dbuser0"
    "db_log world1 = []"
    by (simp_all add: world1_def world0_def)
  have w2: "cache world2 ''ab12:is-blocked'' \<noteq> None"
    by (simp add: world2_def world0_def)
  show ?thesis
    using findByPubkey_cache_datastore_webhook [where w = world2 and pk = "''ab12''" and env = envRefuse]
      findByPubkey_cache_datastore_webhook [where w = world1 and pk = "''ab12''" and env = envW]
      findByPubkey_cache_datastore_webhook [where w = world0 and pk = "''ab12''" and env = envW]
      findByPubkey_cache_datastore_webhook [where w = world0 and pk = "''ab12''" and env = envRefuse]
      url n p d w0 w1 w2
    by simp
qed

subsection \<open>User admission\<close>

text \<open>
  Claim C4. \<^verbatim>\<open>isUserAdmitted\<close> accepts at once, leaving the world as it was, when
  payments are absent or disabled, or when no admission fee schedule is enabled with no
  whitelist prefix matching the pubkey of the submitter. Otherwise it loads the user: an
  absent user and a user who is not admitted are refused with
  \<^verbatim>\<open>blocked: pubkey not admitted\<close>; for an admitted user, when \<^verbatim>\<open>publication[0]\<close> is
  enabled and the balance is below its amount, \<^verbatim>\<open>topUpPubkey\<close> is tried if
  \<^verbatim>\<open>topUp[0]\<close> is enabled, the event is accepted when it succeeds, and it is refused with
  \<^verbatim>\<open>blocked: insufficient balance\<close> when it fails or when \<^verbatim>\<open>topUp[0]\<close> is disabled.
\<close>

theorem isUserAdmitted_branches:
  "((payments s = None
     \<or> (\<exists>p. payments s = Some p
             \<and> (\<not> pay_enabled p \<or> \<not> list_ex (isApplicableFee event) (admission p))))
    \<longrightarrow> isUserAdmitted env s event w = (Inr None, w))
   \<and> (\<forall>p. payments s = Some p \<and> pay_enabled p \<and> list_ex (isApplicableFee event) (admission p)
        \<longrightarrow>
        (\<forall>w1. findByPubkey env (ev_pubkey event) w = (Inr None, w1) \<longrightarrow>
           isUserAdmitted env s event w = (Inr (Some ''blocked: pubkey not admitted''), w1))
        \<and> (\<forall>user w1. findByPubkey env (ev_pubkey event) w = (Inr (Some user), w1) \<longrightarrow>
             (\<not> isAdmitted user \<longrightarrow>
                isUserAdmitted env s event w = (Inr (Some ''blocked: pubkey not admitted''), w1))
             \<and> (\<forall>pub0 ps top0 ts.
                  isAdmitted user \<and> publication p = pub0 # ps \<and> enabled pub0
                  \<and> balance user < amount pub0 \<and> topUp p = top0 # ts \<longrightarrow>
                  (\<not> enabled top0 \<longrightarrow>
                     isUserAdmitted env s event w
                       = (Inr (Some ''blocked: insufficient balance''), w1))
                  \<and> (\<forall>w2. enabled top0
                           \<and> topUpPubkey env (ev_pubkey event) w1 = (Inr True, w2) \<longrightarrow>
                       isUserAdmitted env s event w = (Inr None, w2))
                  \<and> (\<forall>w2. enabled top0
                           \<and> topUpPubkey env (ev_pubkey event) w1 = (Inr False, w2) \<longrightarrow>
                       isUserAdmitted env s event w
                         = (Inr (Some ''blocked: insufficient balance''), w2)))))"
  by (auto simp: isUserAdmitted_def Let_def list_ex_iff filter_empty_conv)

text \<open>
  Claim C10. When \<^verbatim>\<open>publication[0]\<close> is enabled, the balance of the admitted user is
  below its amount and \<^verbatim>\<open>topUpPubkey\<close> returns true, \<^verbatim>\<open>isUserAdmitted\<close> accepts at
  once: nothing is assumed of the balance after the top-up, and the answer is the same
  whatever the limits of the settings are, \<^verbatim>\<open>limits.event.pubkey.minBalance\<close> included.
\<close>

theorem isUserAdmitted_top_up_skips_balance_checks:
  assumes "payments s = Some p" "pay_enabled p" "list_ex (isApplicableFee event) (admission p)"
    and "findByPubkey env (ev_pubkey event) w = (Inr (Some user), w1)" "isAdmitted user"
    and "publication p = pub0 # ps" "enabled pub0" "balance user < amount pub0"
    and "topUp p = top0 # ts" "enabled top0"
    and "topUpPubkey env (ev_pubkey event) w1 = (Inr True, w2)"
  shows "isUserAdmitted env s event w = (Inr None, w2)
         \<and> isUserAdmitted env (s\<lparr>limits_event := l\<rparr>) event w = (Inr None, w2)"
  using assms by (auto simp: isUserAdmitted_def Let_def list_ex_iff filter_empty_conv)

lemmas fixtures = envP_def envFail_def env0_def settingsP_def payments1_def webhooks0_def
  world3_def world0_def dbuser1_def dbuser0_def event0_def data0_def settings0_def
  noEventLimits_def

theorem isUserAdmitted_branches_witness:
  "isUserAdmitted envP settings0 event0 world3 = (Inr None, world3)
   \<and> isUserAdmitted envFail settingsP event0 world3
       = (Inr (Some ''blocked: insufficient balance''),
          world3\<lparr>db_log := [SelectUser ''ab12''],
                 http_log := [(''https://h/topup?token=token'', PubkeyAmountBody ''ab12'' 10)]\<rparr>)"
proof -
  let ?w1 = "world3\<lparr>db_log := [SelectUser ''ab12'']\<rparr>"
  let ?w2 = "world3\<lparr>db_log := [SelectUser ''ab12''],
                 http_log := [(''https://h/topup?token=token'', PubkeyAmountBody ''ab12'' 10)]\<rparr>"
  have off: "payments settings0 = None"
    by (simp add: settings0_def)
  have on: "payments settingsP = Some payments1" "pay_enabled payments1"
    "list_ex (isApplicableFee event0) (admission payments1)"
    by (simp_all add: fixtures isApplicableFee_def some_def startsWith_def)
  have found: "findByPubkey envFail (ev_pubkey event0) world3 = (Inr (Some (fromDBUser dbuser1)), ?w1)"
    by (simp add: findByPubkey_def cacheExists_def toBuffer_def fixtures)
  have user: "isAdmitted (fromDBUser dbuser1)"
    "balance (fromDBUser dbuser1) < amount \<lparr>enabled = True, amount = 100, fee_whitelist = None\<rparr>"
    by (simp_all add: fromDBUser_def fixtures)
  have fees: "publication payments1 = \<lparr>enabled = True, amount = 100, fee_whitelist = None\<rparr> # []"
    "topUp payments1 = \<lparr>enabled = True, amount = 10, fee_whitelist = None\<rparr> # []"
    "enabled \<lparr>enabled = True, amount = 100, fee_whitelist = None\<rparr>"
    "enabled \<lparr>enabled = True, amount = 10, fee_whitelist = None\<rparr>"
    by (simp_all add: payments1_def)
  have failed: "topUpPubkey envFail (ev_pubkey event0) ?w1 = (Inr False, ?w2)"
    by (simp add: topUpPubkey_def topUpAmount_def post_def truthy_def template_def fixtures)
  show ?thesis
    using isUserAdmitted_branches [where s = settings0 and event = event0 and env = envP and w = world3]
      isUserAdmitted_branches [where s = settingsP and event = event0 and env = envFail and w = world3]
      off on found user fees failed
    by simp
qed

theorem isUserAdmitted_top_up_skips_balance_checks_witness:
  "isUserAdmitted envP settingsP event0 world3
     = (Inr None,
        world3\<lparr>users := [''ab12'' \<mapsto> dbuser1\<lparr>db_balance := 60\<rparr>],
               db_log := [SelectUser ''ab12'', IncrementBalance ''ab12'' 10],
               http_log := [(''https://h/topup?token=token'', PubkeyAmountBody ''ab12'' 10)]\<rparr>)
   \<and> (60::int) < amount (hd (publication payments1))
   \<and> 0 < minBalanceOf settingsP \<and> 60 < minBalanceOf settingsP"
proof -
  let ?w1 = "world3\<lparr>db_log := [SelectUser ''ab12'']\<rparr>"
  let ?w2 = "world3\<lparr>users := [''ab12'' \<mapsto> dbuser1\<lparr>db_balance := 60\<rparr>],
               db_log := [SelectUser ''ab12'', IncrementBalance ''ab12'' 10],
               http_log := [(''https://h/topup?token=token'', PubkeyAmountBody ''ab12'' 10)]\<rparr>"
  have on: "payments settingsP = Some payments1" "pay_enabled payments1"
    "list_ex (isApplicableFee event0) (admission payments1)"
    by (simp_all add: fixtures isApplicableFee_def some_def startsWith_def)
  have found: "findByPubkey envP (ev_pubkey event0) world3 = (Inr (Some (fromDBUser dbuser1)), ?w1)"
    by (simp add: findByPubkey_def cacheExists_def toBuffer_def fixtures)
  have user: "isAdmitted (fromDBUser dbuser1)"
    "balance (fromDBUser dbuser1) < amount \<lparr>enabled = True, amount = 100, fee_whitelist = None\<rparr>"
    by (simp_all add: fromDBUser_def fixtures)
  have fees: "publication payments1 = \<lparr>enabled = True, amount = 100, fee_whitelist = None\<rparr> # []"
    "topUp payments1 = \<lparr>enabled = True, amount = 10, fee_whitelist = None\<rparr> # []"
    "enabled \<lparr>enabled = True, amount = 100, fee_whitelist = None\<rparr>"
    "enabled \<lparr>enabled = True, amount = 10, fee_whitelist = None\<rparr>"
    by (simp_all add: payments1_def)
  have topped: "topUpPubkey envP (ev_pubkey event0) ?w1 = (Inr True, ?w2)"
    by (simp add: topUpPubkey_def topUpAmount_def post_def truthy_def template_def
          incrementUserBalance_def fixtures)
  have limits: "(60::int) < amount (hd (publication payments1))"
    "0 < minBalanceOf settingsP" "60 < minBalanceOf settingsP"
    by (simp_all add: minBalanceOf_def fixtures)
  show ?thesis
    using isUserAdmitted_top_up_skips_balance_checks
      [OF on found user(1) fees(1) fees(3) user(2) fees(2) fees(4) topped] limits
    by simp
qed

subsection \<open>The pipeline\<close>

lemma ev_id_pipelineEvent [simp]: "ev_id (pipelineEvent env m) = ev_id (msg_event m)"
  by (simp add: pipelineEvent_def receivedEvent_def addExpirationMetadata_def split: option.splits)

lemma ev_id_receivedEvent [simp]: "ev_id (receivedEvent m) = ev_id (msg_event m)"
  by (simp add: receivedEvent_def)

lemma isRateLimited_emitted [simp]:
  "emitted (snd (isRateLimited env s event w)) = emitted w"
  by (simp add: isRateLimited_def rateLimitLoop_hits Let_def split: option.splits)

lemma topUpPubkey_emitted [simp]:
  "emitted (snd (topUpPubkey env pk w)) = emitted w"
  by (simp add: topUpPubkey_def post_def incrementUserBalance_def Let_def
        split: option.splits sum.splits)

lemma findByPubkey_emitted [simp]:
  "emitted (snd (findByPubkey env pk w)) = emitted w"
  by (simp add: findByPubkey_def fetchUserByWebhook_answer upsert_def insertOnConflictMerge_def
        cacheSet_def cacheExpire_def Let_def
        split: option.splits sum.splits)

lemma isUserAdmitted_emitted [simp]:
  "emitted (snd (isUserAdmitted env s event w)) = emitted w"
  by (simp add: isUserAdmitted_def Let_def case_prod_beta
        split: option.splits sum.splits list.splits)

lemma passesAdmission_emitted:
  "passesAdmission env s m w w2 \<Longrightarrow> emitted w2 = emitted w"
proof -
  assume "passesAdmission env s m w w2"
  then have "snd (isUserAdmitted env s (pipelineEvent env m)
                    (snd (isRateLimited env s (pipelineEvent env m) w))) = w2"
    by (simp add: passesAdmission_def case_prod_beta)
  then have "emitted w2 = emitted (snd (isRateLimited env s (pipelineEvent env m) w))"
    using isUserAdmitted_emitted by metis
  then show ?thesis by simp
qed

lemma handleMessage_admitted:
  "passesAdmission env s m w w2 \<Longrightarrow>
   handleMessage env s m w =
     (case eventCheckWebhook env s (pipelineEvent env m) w2 of
        (Throw err, w3) \<Rightarrow> (Some err, w3)
      | (Return, w3) \<Rightarrow> (None, w3)
      | (Continue, w3) \<Rightarrow>
          (case strategyFactory env (pipelineEvent env m) of
             None \<Rightarrow> (None, emit (rejection m ''error: event not supported'') w3)
           | Some strategy \<Rightarrow>
               (case chargePublicationFee s (pipelineEvent env m) w3 of
                  (Throw err, w4) \<Rightarrow> (Some err, w4)
                | (Return, w4) \<Rightarrow> (None, w4)
                | (Continue, w4) \<Rightarrow>
                    (None, eventCallbackWebhook env s (pipelineEvent env m)
                             (executeStrategy strategy (pipelineEvent env m) w4)))))"
  by (simp add: passesAdmission_def handleMessage_def Let_def pipelineEvent_def [symmetric]
        receivedEvent_def [symmetric] rejection_def createCommandResult_def case_prod_beta
        split: bool.splits control.splits option.splits)


lemma ev_pubkey_pipelineEvent [simp]: "ev_pubkey (pipelineEvent env m) = ev_pubkey (msg_event m)"
  by (simp add: pipelineEvent_def receivedEvent_def addExpirationMetadata_def split: option.splits)

lemma eventCheckWebhook_answer:
  "eventCheckWebhook env s event w =
     (case eventCheckUrl s of
        None \<Rightarrow> (Continue, w)
      | Some url \<Rightarrow>
          (let w' = w\<lparr>http_log := http_log w @ [(url, EventBody event)]\<rparr>
           in case httpPost env (http_log w) url (EventBody event) of
                Inl err \<Rightarrow> (Throw err, w')
              | Inr d \<Rightarrow>
                  if r_success d then (Continue, w')
                  else (Return, emit (CommandResult (ev_id event) False (r_reason d)) w')))"
  by (simp add: eventCheckWebhook_def eventCheckUrl_def post_def createCommandResult_def Let_def
        split: option.splits sum.splits)

lemma eventCheckWebhook_Continue_frame:
  "eventCheckWebhook env s event w = (Continue, w') \<Longrightarrow>
     emitted w' = emitted w \<and> users w' = users w \<and> db_log w' = db_log w"
  by (auto simp: eventCheckWebhook_answer Let_def split: option.splits sum.splits if_splits)

lemma eventCallbackWebhook_frame [simp]:
  "emitted (eventCallbackWebhook env s event w) = emitted w"
  "users (eventCallbackWebhook env s event w) = users w"
  "db_log (eventCallbackWebhook env s event w) = db_log w"
  "cache (eventCallbackWebhook env s event w) = cache w"
  "rl_log (eventCallbackWebhook env s event w) = rl_log w"
  by (simp_all add: eventCallbackWebhook_def post_def split: option.splits)

text \<open>
  Claim C7. For a submission that passes the stages up to user admission, with the
  event-check webhook configured and switched on: an answer with \<^verbatim>\<open>success = false\<close> makes
  the handler emit exactly one frame \<^verbatim>\<open>["OK", id, false, reason]\<close> with the reason of the
  server, and return; the world is then the one user admission left, with the request and
  this frame added, so no later stage has run. A transport failure of the request is thrown
  on, and no frame at all is emitted for the submission.
\<close>

theorem eventCheck_veto_acknowledged_transport_failure_thrown:
  assumes "passesAdmission env s m w w2" and "eventCheckUrl s = Some url"
  shows
    "(\<forall>d. httpPost env (http_log w2) url (EventBody (pipelineEvent env m)) = Inr d
           \<and> \<not> r_success d \<longrightarrow>
        handleMessage env s m w
          = (None,
             w2\<lparr>http_log := http_log w2 @ [(url, EventBody (pipelineEvent env m))],
                 emitted := emitted w @ [CommandResult (ev_id (msg_event m)) False (r_reason d)]\<rparr>))
     \<and> (\<forall>err. httpPost env (http_log w2) url (EventBody (pipelineEvent env m)) = Inl err \<longrightarrow>
          handleMessage env s m w
            = (Some err, w2\<lparr>http_log := http_log w2 @ [(url, EventBody (pipelineEvent env m))]\<rparr>)
          \<and> emitted (snd (handleMessage env s m w)) = emitted w)"
  using assms passesAdmission_emitted [OF assms(1)]
  by (simp add: handleMessage_admitted eventCheckWebhook_answer emit_def Let_def)

text \<open>
  Claim C5. When the first publication fee schedule is enabled and the submission reaches
  the strategy, the strategy runs in the world \<open>w4\<close> in which the balance of the submitter
  has been decremented by \<^verbatim>\<open>publication[0].amount\<close> and nothing has been emitted yet. If
  the strategy throws, leaving the world \<open>w5\<close>, the promise is still fulfilled, exactly
  one frame \<^verbatim>\<open>["OK", id, false, "error: unable to process event"]\<close> is added to what was
  emitted, and the users table and the statements sent to the datastore stay as the
  strategy left them: the fee is not given back.
\<close>

theorem publication_fee_debited_before_strategy_and_kept:
  assumes "passesAdmission env s m w w2"
    and "eventCheckWebhook env s (pipelineEvent env m) w2 = (Continue, w3)"
    and "strategyFactory env (pipelineEvent env m) = Some strategy"
    and "payments s = Some p" and "publication p = pub0 # ps" and "enabled pub0"
    and "w4 = decrementUserBalance (ev_pubkey (msg_event m)) (amount pub0) w3"
  shows
    "handleMessage env s m w
       = (None, eventCallbackWebhook env s (pipelineEvent env m)
                  (executeStrategy strategy (pipelineEvent env m) w4))
     \<and> users w4 (ev_pubkey (msg_event m))
         = map_option (\<lambda>u. u\<lparr>db_balance := db_balance u - amount pub0\<rparr>)
             (users w3 (ev_pubkey (msg_event m)))
     \<and> emitted w4 = emitted w
     \<and> (\<forall>w5. strategy (pipelineEvent env m) w4 = (Thrown, w5) \<longrightarrow>
          fst (handleMessage env s m w) = None
          \<and> emitted (snd (handleMessage env s m w))
              = emitted w5
                @ [CommandResult (ev_id (msg_event m)) False ''error: unable to process event'']
          \<and> users (snd (handleMessage env s m w)) = users w5
          \<and> db_log (snd (handleMessage env s m w)) = db_log w5)"
proof -
  have run: "handleMessage env s m w
       = (None, eventCallbackWebhook env s (pipelineEvent env m)
                  (executeStrategy strategy (pipelineEvent env m) w4))"
    using assms
    by (simp add: handleMessage_admitted chargePublicationFee_def updateUserBalance_def)
  have debit: "users w4 (ev_pubkey (msg_event m))
         = map_option (\<lambda>u. u\<lparr>db_balance := db_balance u - amount pub0\<rparr>)
             (users w3 (ev_pubkey (msg_event m)))"
    using assms(7) by (simp add: decrementUserBalance_def split: option.splits)
  have quiet: "emitted w4 = emitted w"
    using assms(7) eventCheckWebhook_Continue_frame [OF assms(2)]
      passesAdmission_emitted [OF assms(1)]
    by (simp add: decrementUserBalance_def)
  have thrown: "fst (handleMessage env s m w) = None
          \<and> emitted (snd (handleMessage env s m w))
              = emitted w5
                @ [CommandResult (ev_id (msg_event m)) False ''error: unable to process event'']
          \<and> users (snd (handleMessage env s m w)) = users w5
          \<and> db_log (snd (handleMessage env s m w)) = db_log w5"
    if "strategy (pipelineEvent env m) w4 = (Thrown, w5)" for w5
    using that by (simp add: run executeStrategy_def emit_def createCommandResult_def)
  show ?thesis
    using run debit quiet thrown by blast
qed


lemma canAcceptEvent_no_limits:
  "limits_event s = None \<Longrightarrow> canAcceptEvent env s event = None"
  by (simp add: canAcceptEvent_def eventLimits_def noEventLimits_def checkContent_def
        checkFutureSkew_def checkPastSkew_def checkEventIdPow_def checkPubkeyPow_def
        checkPubkeyWhitelist_def checkPubkeyBlacklist_def checkKindWhitelist_def
        checkKindBlacklist_def)

lemma isRateLimited_no_limits:
  "limits_event s = None \<Longrightarrow> isRateLimited env s event w = (False, w)"
  by (simp add: isRateLimited_def eventLimits_def noEventLimits_def)

lemma pipelineEvent_message0:
  "getEventExpiration env = (\<lambda>_. None) \<Longrightarrow> pipelineEvent env message0 = event1"
  by (simp add: pipelineEvent_def receivedEvent_def addExpirationMetadata_def message0_def
        event1_def)

theorem eventCheck_veto_acknowledged_transport_failure_thrown_witness:
  "handleMessage envVeto settingsW message0 world0
     = (None, world0\<lparr>http_log := [(''https://h/check'', EventBody event1)],
                      emitted := [CommandResult ''e1'' False ''spam'']\<rparr>)
   \<and> handleMessage envDown settingsW message0 world0
       = (Some TransportFailure, world0\<lparr>http_log := [(''https://h/check'', EventBody event1)]\<rparr>)"
proof -
  have ev: "pipelineEvent envVeto message0 = event1" "pipelineEvent envDown message0 = event1"
    by (simp_all add: pipelineEvent_message0 envVeto_def envDown_def env0_def)
  have pass: "passesAdmission envVeto settingsW message0 world0 world0"
    "passesAdmission envDown settingsW message0 world0 world0"
    by (simp_all add: passesAdmission_def canAcceptEvent_no_limits isRateLimited_no_limits
          isEventValid_def isUserAdmitted_def settingsW_def envVeto_def envDown_def env0_def)
  have url: "eventCheckUrl settingsW = Some ''https://h/check''"
    by (simp add: eventCheckUrl_def settingsW_def webhooks0_def truthy_def template_def)
  have answers:
    "httpPost envVeto (http_log world0) ''https://h/check'' (EventBody event1)
       = Inr (data0\<lparr>r_success := False, r_reason := ''spam''\<rparr>)"
    "httpPost envDown (http_log world0) ''https://h/check'' (EventBody event1)
       = Inl TransportFailure"
    by (simp_all add: envVeto_def envDown_def env0_def)
  have w: "http_log world0 = []" "emitted world0 = []" "ev_id (msg_event message0) = ''e1''"
    by (simp_all add: world0_def message0_def event0_def)
  show ?thesis
    using eventCheck_veto_acknowledged_transport_failure_thrown [OF pass(1) url]
      eventCheck_veto_acknowledged_transport_failure_thrown [OF pass(2) url]
      answers w
    by (simp add: ev data0_def)
qed

theorem publication_fee_debited_before_strategy_and_kept_witness:
  "handleMessage envThrow settingsFee message0 world4
     = (None,
        world4\<lparr>users := [''ab12'' \<mapsto> dbuser1\<lparr>db_balance := 400\<rparr>],
               db_log := [SelectUser ''ab12'', DecrementBalance ''ab12'' 100],
               emitted := [CommandResult ''e1'' False ''error: unable to process event'']\<rparr>)"
proof -
  let ?w2 = "world4\<lparr>db_log := [SelectUser ''ab12'']\<rparr>"
  have ev: "pipelineEvent envThrow message0 = event1"
    by (simp add: pipelineEvent_message0 envThrow_def env0_def)
  have found: "findByPubkey envThrow ''ab12'' world4
                 = (Inr (Some (fromDBUser (dbuser1\<lparr>db_balance := 500\<rparr>))), ?w2)"
    by (simp add: findByPubkey_def cacheExists_def toBuffer_def world4_def world0_def)
  have admitted: "isUserAdmitted envThrow settingsFee event1 world4 = (Inr None, ?w2)"
    by (simp add: isUserAdmitted_def found fromDBUser_def minBalanceOf_def isApplicableFee_def
          some_def startsWith_def settingsFee_def payments1_def event1_def event0_def
          dbuser1_def dbuser0_def)
  have quiet: "limits_event settingsFee = None"
    by (simp add: settingsFee_def)
  have valid: "isEventValid envThrow (receivedEvent message0) = None"
    "\<not> isExpiredEvent envThrow (receivedEvent message0)"
    by (simp_all add: isEventValid_def envThrow_def env0_def)
  have pass: "passesAdmission envThrow settingsFee message0 world4 ?w2"
    by (simp add: passesAdmission_def canAcceptEvent_no_limits isRateLimited_no_limits ev
          quiet valid admitted)
  have check: "eventCheckWebhook envThrow settingsFee (pipelineEvent envThrow message0) ?w2
                 = (Continue, ?w2)"
    by (simp add: eventCheckWebhook_def settingsFee_def)
  have factory: "strategyFactory envThrow (pipelineEvent envThrow message0) = Some thrower"
    by (simp add: envThrow_def env0_def)
  have fee: "payments settingsFee = Some payments1"
    "publication payments1 = \<lparr>enabled = True, amount = 100, fee_whitelist = None\<rparr> # []"
    "enabled \<lparr>enabled = True, amount = 100, fee_whitelist = None\<rparr>"
    by (simp_all add: settingsFee_def payments1_def)
  show ?thesis
    using publication_fee_debited_before_strategy_and_kept
      [OF pass check factory fee refl]
    by (simp add: ev executeStrategy_def thrower_def eventCallbackWebhook_def settingsFee_def
          decrementUserBalance_def emit_def createCommandResult_def
          message0_def event0_def event1_def world4_def world0_def dbuser1_def dbuser0_def)
qed

lemma handleMessage_early:
  "(\<forall>r. isEventValid env (receivedEvent m) = Some r \<longrightarrow>
       handleMessage env s m w = (None, emit (rejection m r) w))
   \<and> (isEventValid env (receivedEvent m) = None \<and> isExpiredEvent env (receivedEvent m) \<longrightarrow>
       handleMessage env s m w = (None, emit (rejection m ''event is expired'') w))
   \<and> (isEventValid env (receivedEvent m) = None \<and> \<not> isExpiredEvent env (receivedEvent m) \<longrightarrow>
       (\<forall>w1. isRateLimited env s (pipelineEvent env m) w = (True, w1) \<longrightarrow>
          handleMessage env s m w = (None, emit (rejection m ''rate-limited: slow down'') w1))
       \<and> (\<forall>w1. isRateLimited env s (pipelineEvent env m) w = (False, w1) \<longrightarrow>
            (\<forall>r. canAcceptEvent env s (pipelineEvent env m) = Some r \<longrightarrow>
               handleMessage env s m w = (None, emit (rejection m r) w1))
            \<and> (canAcceptEvent env s (pipelineEvent env m) = None \<longrightarrow>
                (\<forall>r w2. isUserAdmitted env s (pipelineEvent env m) w1 = (Inr (Some r), w2) \<longrightarrow>
                   handleMessage env s m w = (None, emit (rejection m r) w2))
                \<and> (\<forall>err w2. isUserAdmitted env s (pipelineEvent env m) w1 = (Inl err, w2) \<longrightarrow>
                     handleMessage env s m w = (Some err, w2)))))"
  by (simp add: handleMessage_def Let_def pipelineEvent_def [symmetric]
        receivedEvent_def [symmetric] rejection_def createCommandResult_def)

lemma handleMessage_late:
  assumes "passesAdmission env s m w w2"
  shows
   "(\<forall>url d. eventCheckUrl s = Some url
          \<and> httpPost env (http_log w2) url (EventBody (pipelineEvent env m)) = Inr d
          \<and> \<not> r_success d \<longrightarrow>
       handleMessage env s m w
         = (None, emit (rejection m (r_reason d))
                    (w2\<lparr>http_log := http_log w2 @ [(url, EventBody (pipelineEvent env m))]\<rparr>)))
    \<and> (\<forall>url err. eventCheckUrl s = Some url
          \<and> httpPost env (http_log w2) url (EventBody (pipelineEvent env m)) = Inl err \<longrightarrow>
         handleMessage env s m w
           = (Some err, w2\<lparr>http_log := http_log w2 @ [(url, EventBody (pipelineEvent env m))]\<rparr>))
    \<and> (\<forall>w3. eventCheckWebhook env s (pipelineEvent env m) w2 = (Continue, w3) \<longrightarrow>
         (strategyFactory env (pipelineEvent env m) = None \<longrightarrow>
            handleMessage env s m w = (None, emit (rejection m ''error: event not supported'') w3))
         \<and> (\<forall>strategy. strategyFactory env (pipelineEvent env m) = Some strategy \<longrightarrow>
              (\<forall>err w4. chargePublicationFee s (pipelineEvent env m) w3 = (Throw err, w4) \<longrightarrow>
                 handleMessage env s m w = (Some err, w4))
              \<and> (\<forall>w4. chargePublicationFee s (pipelineEvent env m) w3 = (Continue, w4) \<longrightarrow>
                   (\<forall>w5. strategy (pipelineEvent env m) w4 = (Returned, w5) \<longrightarrow>
                      handleMessage env s m w
                        = (None, eventCallbackWebhook env s (pipelineEvent env m) w5))
                   \<and> (\<forall>w5. strategy (pipelineEvent env m) w4 = (Thrown, w5) \<longrightarrow>
                        fst (handleMessage env s m w) = None
                        \<and> emitted (snd (handleMessage env s m w))
                            = emitted w5 @ [rejection m ''error: unable to process event'']))))"
  using assms
  by (simp add: handleMessage_admitted eventCheckWebhook_answer executeStrategy_def emit_def
        rejection_def createCommandResult_def Let_def)


text \<open>
  Claim C1, as amended. \<^verbatim>\<open>handleMessage\<close> runs its stages in the order validity,
  expiration, expiration metadata, rate limiting, policy, user admission, event-check
  webhook, strategy resolution, publication fee, strategy execution, event-callback webhook:
  each stage is decided by the outcomes of the stages before it and runs in the world they
  left. The first stage that rejects (validity, expiration, rate limiting, policy, user
  admission, a veto of the event-check webhook, strategy resolution) adds exactly one frame
  \<^verbatim>\<open>["OK", id, false, reason]\<close> to the world the stages so far left, and the handler
  returns: no later stage runs. A stage that throws (user admission, a transport failure of
  the event-check webhook, the publication fee) ends the handler with that error and the
  world it left, with no frame emitted. A strategy that throws is caught, and exactly one
  frame \<^verbatim>\<open>["OK", id, false, "error: unable to process event"]\<close> is added to what the
  strategy left emitted; a strategy that returns is followed by the event-callback webhook.
\<close>

theorem handleMessage_first_rejecting_stage:
  "(\<forall>r. isEventValid env (receivedEvent m) = Some r \<longrightarrow>
       handleMessage env s m w = (None, emit (rejection m r) w))
   \<and> (isEventValid env (receivedEvent m) = None \<and> isExpiredEvent env (receivedEvent m) \<longrightarrow>
       handleMessage env s m w = (None, emit (rejection m ''event is expired'') w))
   \<and> (isEventValid env (receivedEvent m) = None \<and> \<not> isExpiredEvent env (receivedEvent m) \<longrightarrow>
       (\<forall>w1. isRateLimited env s (pipelineEvent env m) w = (True, w1) \<longrightarrow>
          handleMessage env s m w = (None, emit (rejection m ''rate-limited: slow down'') w1))
       \<and> (\<forall>w1. isRateLimited env s (pipelineEvent env m) w = (False, w1) \<longrightarrow>
            (\<forall>r. canAcceptEvent env s (pipelineEvent env m) = Some r \<longrightarrow>
               handleMessage env s m w = (None, emit (rejection m r) w1))
            \<and> (canAcceptEvent env s (pipelineEvent env m) = None \<longrightarrow>
                (\<forall>r w2. isUserAdmitted env s (pipelineEvent env m) w1 = (Inr (Some r), w2) \<longrightarrow>
                   handleMessage env s m w = (None, emit (rejection m r) w2))
                \<and> (\<forall>err w2. isUserAdmitted env s (pipelineEvent env m) w1 = (Inl err, w2) \<longrightarrow>
                     handleMessage env s m w = (Some err, w2)))))
   \<and> (\<forall>w2. passesAdmission env s m w w2 \<longrightarrow>
       (\<forall>url d. eventCheckUrl s = Some url
          \<and> httpPost env (http_log w2) url (EventBody (pipelineEvent env m)) = Inr d
          \<and> \<not> r_success d \<longrightarrow>
          handleMessage env s m w
            = (None, emit (rejection m (r_reason d))
                       (w2\<lparr>http_log := http_log w2 @ [(url, EventBody (pipelineEvent env m))]\<rparr>)))
       \<and> (\<forall>url err. eventCheckUrl s = Some url
             \<and> httpPost env (http_log w2) url (EventBody (pipelineEvent env m)) = Inl err \<longrightarrow>
            handleMessage env s m w
              = (Some err,
                 w2\<lparr>http_log := http_log w2 @ [(url, EventBody (pipelineEvent env m))]\<rparr>))
       \<and> (\<forall>w3. eventCheckWebhook env s (pipelineEvent env m) w2 = (Continue, w3) \<longrightarrow>
            (strategyFactory env (pipelineEvent env m) = None \<longrightarrow>
               handleMessage env s m w
                 = (None, emit (rejection m ''error: event not supported'') w3))
            \<and> (\<forall>strategy. strategyFactory env (pipelineEvent env m) = Some strategy \<longrightarrow>
                 (\<forall>err w4. chargePublicationFee s (pipelineEvent env m) w3 = (Throw err, w4) \<longrightarrow>
                    handleMessage env s m w = (Some err, w4))
                 \<and> (\<forall>w4. chargePublicationFee s (pipelineEvent env m) w3 = (Continue, w4) \<longrightarrow>
                      (\<forall>w5. strategy (pipelineEvent env m) w4 = (Returned, w5) \<longrightarrow>
                         handleMessage env s m w
                           = (None, eventCallbackWebhook env s (pipelineEvent env m) w5))
                      \<and> (\<forall>w5. strategy (pipelineEvent env m) w4 = (Thrown, w5) \<longrightarrow>
                           fst (handleMessage env s m w) = None
                           \<and> emitted (snd (handleMessage env s m w))
                               = emitted w5
                                 @ [rejection m ''error: unable to process event''])))))"
  apply (insert handleMessage_early [of env m s w])
  apply (elim conjE)
  apply (intro conjI)
     apply assumption
    apply assumption
   apply assumption
  apply (intro allI impI)
  apply (rule handleMessage_late)
  apply assumption
  done

theorem handleMessage_first_rejecting_stage_witness:
  "handleMessage envBad settings0 message0 world0
     = (None, world0\<lparr>emitted := [CommandResult ''e1'' False ''invalid: event id does not match'']\<rparr>)
   \<and> handleMessage env0 settingsC2 message0 world0
       = (None, world0\<lparr>emitted :=
                   [CommandResult ''e1'' False ''rejected: content is longer than 4 bytes'']\<rparr>)
   \<and> handleMessage env0 settings0 message0 world0
       = (None, world0\<lparr>emitted := [CommandResult ''e1'' True []]\<rparr>)"
proof -
  have ev: "pipelineEvent env0 message0 = event1"
    by (simp add: pipelineEvent_message0 env0_def)
  have bad: "isEventValid envBad (receivedEvent message0) = Some ''invalid: event id does not match''"
    by (simp add: isEventValid_def envBad_def env0_def)
  have valid: "isEventValid env0 (receivedEvent message0) = None"
    "\<not> isExpiredEvent env0 (receivedEvent message0)"
    by (simp_all add: isEventValid_def env0_def)
  have calm: "isRateLimited env0 settingsC2 (pipelineEvent env0 message0) world0 = (False, world0)"
    unfolding ev
    by (simp add: isRateLimited_def eventLimits_def settingsC2_def noEventLimits_def)
  have policy: "canAcceptEvent env0 settingsC2 (pipelineEvent env0 message0)
                  = Some ''rejected: content is longer than 4 bytes''"
    unfolding ev
    by (simp add: canAcceptEvent_def checkContent_def eventLimits_def settingsC2_def
          noEventLimits_def some_def isEventKindOrRangeMatch_def event1_def event0_def
          string_of_int_def string_of_nat.simps)
  have none: "limits_event settings0 = None" "payments settings0 = None"
    "webhooks settings0 = None"
    by (simp_all add: settings0_def)
  have pass: "passesAdmission env0 settings0 message0 world0 world0"
    by (simp add: passesAdmission_def canAcceptEvent_no_limits isRateLimited_no_limits none
          valid isUserAdmitted_def)
  have check: "eventCheckWebhook env0 settings0 (pipelineEvent env0 message0) world0
                 = (Continue, world0)"
    by (simp add: eventCheckWebhook_def none)
  have factory: "strategyFactory env0 (pipelineEvent env0 message0) = Some strategy0"
    by (simp add: env0_def)
  have free: "chargePublicationFee settings0 (pipelineEvent env0 message0) world0
                = (Continue, world0)"
    by (simp add: chargePublicationFee_def none)
  have ran: "strategy0 (pipelineEvent env0 message0) world0
                = (Returned, emit (CommandResult ''e1'' True []) world0)"
    by (simp add: strategy0_def createCommandResult_def message0_def event0_def)
  note bad_run = handleMessage_first_rejecting_stage [of envBad message0 settings0 world0]
  note policy_run = handleMessage_first_rejecting_stage [of env0 message0 settingsC2 world0]
  note full_run = handleMessage_first_rejecting_stage [of env0 message0 settings0 world0]
  have first: "handleMessage envBad settings0 message0 world0
                 = (None, emit (rejection message0 ''invalid: event id does not match'') world0)"
    by (rule bad_run [THEN conjunct1, THEN spec, THEN mp, OF bad])
  have second: "handleMessage env0 settingsC2 message0 world0
                  = (None, emit (rejection message0 ''rejected: content is longer than 4 bytes'')
                             world0)"
    by (rule policy_run [THEN conjunct2, THEN conjunct2, THEN conjunct1, THEN mp,
          OF conjI [OF valid], THEN conjunct2, THEN spec, THEN mp, OF calm, THEN conjunct1,
          THEN spec, THEN mp, OF policy])
  have third: "handleMessage env0 settings0 message0 world0
                 = (None, eventCallbackWebhook env0 settings0 (pipelineEvent env0 message0)
                            (emit (CommandResult ''e1'' True []) world0))"
    by (rule full_run [THEN conjunct2, THEN conjunct2, THEN conjunct2, THEN spec, THEN mp,
          OF pass, THEN conjunct2, THEN conjunct2, THEN spec, THEN mp, OF check,
          THEN conjunct2, THEN spec, THEN mp, OF factory, THEN conjunct2, THEN spec, THEN mp,
          OF free, THEN conjunct1, THEN spec, THEN mp, OF ran])
  show ?thesis
    unfolding first second third
    by (simp add: emit_def rejection_def eventCallbackWebhook_def none message0_def event0_def
          world0_def)
qed

text \<open>
  Claim C1, as stated, fails. When the event-check webhook cannot be reached, the stage
  fails and no frame is emitted; when the strategy throws, the frame is emitted and the
  event-callback webhook, a later stage, is still posted to.
\<close>

theorem handleMessage_first_failing_stage_counterexample:
  "fst (handleMessage envDown settingsW message0 world0) = Some TransportFailure
   \<and> emitted (snd (handleMessage envDown settingsW message0 world0)) = []
   \<and> fst (handleMessage envThrow settingsW message0 world0) = None
   \<and> emitted (snd (handleMessage envThrow settingsW message0 world0))
       = [CommandResult ''e1'' False ''error: unable to process event'']
   \<and> http_log (snd (handleMessage envThrow settingsW message0 world0))
       = [(''https://h/check'', EventBody event1), (''https://h/done'', EventBody event1)]"
proof -
  have ev: "pipelineEvent envDown message0 = event1" "pipelineEvent envThrow message0 = event1"
    by (simp_all add: pipelineEvent_message0 envDown_def envThrow_def env0_def)
  have quiet: "limits_event settingsW = None" "payments settingsW = None"
    by (simp_all add: settingsW_def)
  have pass: "passesAdmission envDown settingsW message0 world0 world0"
    "passesAdmission envThrow settingsW message0 world0 world0"
    by (simp_all add: passesAdmission_def canAcceptEvent_no_limits isRateLimited_no_limits quiet
          isEventValid_def isUserAdmitted_def envDown_def envThrow_def env0_def)
  have url: "eventCheckUrl settingsW = Some ''https://h/check''"
    by (simp add: eventCheckUrl_def settingsW_def webhooks0_def truthy_def template_def)
  have refused: "eventCheckWebhook envDown settingsW event1 world0
                   = (Throw TransportFailure,
                      world0\<lparr>http_log := [(''https://h/check'', EventBody event1)]\<rparr>)"
    by (simp add: eventCheckWebhook_answer url envDown_def env0_def world0_def)
  have down: "handleMessage envDown settingsW message0 world0
                = (Some TransportFailure,
                   world0\<lparr>http_log := [(''https://h/check'', EventBody event1)]\<rparr>)"
    using handleMessage_admitted [OF pass(1)] unfolding ev by (simp add: refused)
  let ?w3 = "world0\<lparr>http_log := [(''https://h/check'', EventBody event1)]\<rparr>"
  have checked: "eventCheckWebhook envThrow settingsW event1 world0 = (Continue, ?w3)"
    by (simp add: eventCheckWebhook_answer url envThrow_def env0_def world0_def data0_def)
  have factory: "strategyFactory envThrow event1 = Some thrower"
    by (simp add: envThrow_def env0_def)
  have free: "chargePublicationFee settingsW event1 ?w3 = (Continue, ?w3)"
    by (simp add: chargePublicationFee_def quiet)
  have caught: "executeStrategy thrower event1 ?w3
                  = emit (CommandResult ''e1'' False ''error: unable to process event'') ?w3"
    by (simp add: executeStrategy_def thrower_def createCommandResult_def event1_def event0_def)
  have called: "eventCallbackWebhook envThrow settingsW event1
                  (emit (CommandResult ''e1'' False ''error: unable to process event'') ?w3)
                = world0\<lparr>http_log := [(''https://h/check'', EventBody event1),
                                          (''https://h/done'', EventBody event1)],
                          emitted := [CommandResult ''e1'' False ''error: unable to process event'']\<rparr>"
    by (simp add: eventCallbackWebhook_def post_def emit_def truthy_def template_def
          settingsW_def webhooks0_def world0_def)
  have thrown: "handleMessage envThrow settingsW message0 world0
                = (None,
                   world0\<lparr>http_log := [(''https://h/check'', EventBody event1),
                                          (''https://h/done'', EventBody event1)],
                          emitted := [CommandResult ''e1'' False ''error: unable to process event'']\<rparr>)"
    using handleMessage_admitted [OF pass(2)] unfolding ev
    by (simp add: checked factory free caught called)
  show ?thesis
    unfolding down thrown by (simp add: world0_def)
qed

end
